theory Spec2Isabelle
  imports Complex_Main "HOL-Library.Multiset"
begin

section \<open>The Sacred Geometry optimization planner\<close>

text \<open>
  Source: \<^verbatim>\<open>src/sacred_geometry_optimizer.py\<close>.
  A shallow embedding of the class \<open>SacredGeometryOptimizer\<close>. Python floats are
  modelled as \<^typ>\<open>real\<close> (scores are assumed to be finite numbers; the threshold
  literals \<open>0.5\<close>, \<open>0.7\<close>, \<open>0.8\<close> are the decimal fractions), Python strings as
  \<^typ>\<open>string\<close> holding the UTF-8 bytes of the text, dictionaries whose order matters
  as association lists, and every exception the code can raise as a value of
  \<open>error\<close>. The attributes of \<open>self\<close> are passed explicitly, the value of
  \<open>time.time()\<close> is an argument, and the lines written with \<open>print\<close> are left out.
\<close>

subsection \<open>Module constants\<close>

definition PHI :: real where
  "PHI = (1 + sqrt 5) / 2"

definition PHI_SQUARED :: real where
  "PHI_SQUARED = PHI ^ 2"

definition PHI_CUBED :: real where
  "PHI_CUBED = PHI ^ 3"

subsection \<open>Exceptions and the Python primitives used\<close>

datatype error = KeyError string | ValueError | IndexError | ZeroDivisionError

definition bind_result :: "error + 'a \<Rightarrow> ('a \<Rightarrow> error + 'b) \<Rightarrow> error + 'b" where
  "bind_result r f = (case r of Inl e \<Rightarrow> Inl e | Inr x \<Rightarrow> f x)"

text \<open>\<open>d.get(k, default)\<close> on a dictionary.\<close>

definition dict_get :: "('k \<rightharpoonup> 'v) \<Rightarrow> 'k \<Rightarrow> 'v \<Rightarrow> 'v" where
  "dict_get d k dflt = (case d k of None \<Rightarrow> dflt | Some v \<Rightarrow> v)"

text \<open>\<open>d[k]\<close> on an insertion-ordered dictionary: raises \<open>KeyError\<close> for a missing key.\<close>

definition dict_item :: "(string \<times> 'v) list \<Rightarrow> string \<Rightarrow> error + 'v" where
  "dict_item d k = (case map_of d k of None \<Rightarrow> Inl (KeyError k) | Some v \<Rightarrow> Inr v)"

text \<open>
  The builtins \<open>min(iterable, key=f)\<close> and \<open>max(iterable, key=f)\<close>: the first item is the
  candidate, a later item replaces it only when its key is strictly smaller (larger);
  an empty iterable raises \<open>ValueError\<close>, and an exception of the key function
  propagates.
\<close>

fun min_loop :: "('a \<Rightarrow> error + real) \<Rightarrow> 'a list \<Rightarrow> 'a \<Rightarrow> real \<Rightarrow> error + 'a" where
  "min_loop key [] best bv = Inr best"
| "min_loop key (x # xs) best bv =
     (case key x of
        Inl e \<Rightarrow> Inl e
      | Inr v \<Rightarrow> if v < bv then min_loop key xs x v else min_loop key xs best bv)"

definition py_min :: "'a list \<Rightarrow> ('a \<Rightarrow> error + real) \<Rightarrow> error + 'a" where
  "py_min xs key =
     (case xs of
        [] \<Rightarrow> Inl ValueError
      | x # rest \<Rightarrow> (case key x of Inl e \<Rightarrow> Inl e | Inr v \<Rightarrow> min_loop key rest x v))"

fun max_loop :: "('a \<Rightarrow> error + real) \<Rightarrow> 'a list \<Rightarrow> 'a \<Rightarrow> real \<Rightarrow> error + 'a" where
  "max_loop key [] best bv = Inr best"
| "max_loop key (x # xs) best bv =
     (case key x of
        Inl e \<Rightarrow> Inl e
      | Inr v \<Rightarrow> if v > bv then max_loop key xs x v else max_loop key xs best bv)"

definition py_max :: "'a list \<Rightarrow> ('a \<Rightarrow> error + real) \<Rightarrow> error + 'a" where
  "py_max xs key =
     (case xs of
        [] \<Rightarrow> Inl ValueError
      | x # rest \<Rightarrow> (case key x of Inl e \<Rightarrow> Inl e | Inr v \<Rightarrow> max_loop key rest x v))"

text \<open>
  \<open>list.sort(key=f, reverse=r)\<close>: a stable sort by ascending key; with
  \<open>reverse=True\<close> the list is reversed, sorted stably, and reversed again.
\<close>

definition py_sort :: "('a \<Rightarrow> real) \<Rightarrow> bool \<Rightarrow> 'a list \<Rightarrow> 'a list" where
  "py_sort key reverse xs =
     (if reverse then rev (sort_key key (rev xs)) else sort_key key xs)"

text \<open>True division \<open>a / b\<close>: raises \<open>ZeroDivisionError\<close> when the divisor is zero.\<close>

text \<open>\<open>xs[i]\<close> for an index \<open>i \<ge> 0\<close>: raises \<open>IndexError\<close> out of range.\<close>

definition list_item :: "'a list \<Rightarrow> nat \<Rightarrow> error + 'a" where
  "list_item xs i = (if i < length xs then Inr (xs ! i) else Inl IndexError)"

definition py_truediv :: "real \<Rightarrow> real \<Rightarrow> error + real" where
  "py_truediv a b = (if b = 0 then Inl ZeroDivisionError else Inr (a / b))"

subsection \<open>Data model\<close>

text \<open>The dataclass \<open>OptimizationTask\<close>; the field \<open>id\<close> is named \<open>id_task\<close> here.\<close>

record OptimizationTask =
  id_task :: string
  title :: string
  priority :: real
  pattern :: string
  system :: string
  description :: string
  implementation_steps :: "string list"
  success_criteria :: "string list"
  estimated_effort :: string
  expected_impact :: real

text \<open>
  The analysis document read by \<open>_load_analysis\<close>: the object \<open>overall_analysis\<close> may be
  missing, and so may its member \<open>average_scores\<close>, a dictionary from score names to
  numbers.
\<close>

record overall_analysis_obj =
  average_scores :: "(string \<rightharpoonup> real) option"

record analysis_data_obj =
  overall_analysis :: "overall_analysis_obj option"

text \<open>
  The object after \<open>__init__\<close>: the loaded document and the task list, which
  starts empty.
\<close>

record optimizer =
  analysis_data :: analysis_data_obj
  optimization_tasks :: "OptimizationTask list"

definition optimizer_init :: "analysis_data_obj \<Rightarrow> optimizer" where
  "optimizer_init data = \<lparr>analysis_data = data, optimization_tasks = []\<rparr>"

text \<open>The attributes that \<open>_analyze_current_state\<close> sets on \<open>self\<close>.\<close>

record analysis_state =
  weakest_pattern :: string
  strongest_pattern :: string
  pattern_scores :: "(string \<times> real) list"

text \<open>The dictionary built by \<open>_task_to_dict\<close>, one field per key.\<close>

record task_dict =
  d_id :: string
  d_title :: string
  d_priority :: real
  d_priority_name :: string
  d_pattern :: string
  d_system :: string
  d_description :: string
  d_implementation_steps :: "string list"
  d_success_criteria :: "string list"
  d_estimated_effort :: string
  d_expected_impact :: real

text \<open>The roadmap dictionary returned by \<open>_create_implementation_roadmap\<close>.\<close>

record phase =
  phase_name :: string
  phase_description :: string
  phase_tasks :: "task_dict list"
  phase_expected_impact :: real

record phases_obj =
  phase_1_immediate :: phase
  phase_2_progressive :: phase
  phase_3_optimization :: phase

record success_metrics_obj =
  target_sacred_geometry_score :: real
  expected_timeline :: string
  key_patterns_to_improve :: "string list"
  measurement_intervals :: string

record roadmap =
  analysis_timestamp :: real
  current_sacred_geometry_score :: "(string \<times> real) list"
  optimization_strategy :: string
  phases :: phases_obj
  success_metrics :: success_metrics_obj
  next_actions :: "string list"

subsection \<open>The tasks constructed by the generators\<close>

definition CIRCLE_001 :: "OptimizationTask" where
  "CIRCLE_001 = \<lparr>
     id_task = ''CIRCLE_001'',
     title = ''Enhance System Completeness Through Sacred Geometry Testing'',
     priority = PHI_CUBED,
     pattern = ''Circle'',
     system = ''All Systems'',
     description = ''Implement comprehensive testing strategy using Sacred Geometry principles to achieve system completeness'',
     implementation_steps =
       [ [CHR 0xF0, CHR 0x9F, CHR 0x94, CHR 0x8D] @ '' Audit current test coverage across all systems'',
        [CHR 0xF0, CHR 0x9F, CHR 0x93, CHR 0x90] @ '' Apply Golden Ratio ('' @ [CHR 0xCF, CHR 0x86] @ '' = PHI) to test-to-code ratios'',
        [CHR 0xF0, CHR 0x9F, CHR 0x94, CHR 0xBA] @ '' Implement three-tier testing: Unit, Integration, End-to-End'',
        [CHR 0xF0, CHR 0x9F, CHR 0x8C, CHR 0x80] @ '' Create progressive test enhancement spiral'',
        [CHR 0xE2, CHR 0x99, CHR 0xBE, CHR 0xEF, CHR 0xB8, CHR 0x8F] @ '' Establish fractal testing patterns across scales'',
        [CHR 0xF0, CHR 0x9F, CHR 0x94, CHR 0xB5] @ '' Validate complete test coverage creates unified system''],
     success_criteria =
       [''Test coverage increases to > 80% ('' @ [CHR 0xCF, CHR 0x86] @ '' * 50%)'',
        ''All systems achieve Circle completeness score > 0.8'',
        ''Testing follows Sacred Geometry patterns'',
        ''Automated test execution in CI/CD pipeline''],
     estimated_effort = ''Large'',
     expected_impact = 0.85\<rparr>"

definition CIRCLE_002 :: "OptimizationTask" where
  "CIRCLE_002 = \<lparr>
     id_task = ''CIRCLE_002'',
     title = ''Sacred Geometry Documentation System'',
     priority = PHI_SQUARED,
     pattern = ''Circle'',
     system = ''All Systems'',
     description = ''Create complete documentation following Sacred Geometry organizational principles'',
     implementation_steps =
       [ [CHR 0xF0, CHR 0x9F, CHR 0x93, CHR 0x96] @ '' Create Sacred Geometry documentation template'',
        [CHR 0xF0, CHR 0x9F, CHR 0x94, CHR 0xBA] @ '' Organize docs in three-tier hierarchy: Overview, Details, Examples'',
        [CHR 0xF0, CHR 0x9F, CHR 0x93, CHR 0x90] @ '' Apply Golden Ratio to content proportions'',
        [CHR 0xF0, CHR 0x9F, CHR 0x94, CHR 0xB5] @ '' Ensure documentation completeness for each system'',
        [CHR 0xF0, CHR 0x9F, CHR 0x8C, CHR 0x80] @ '' Implement progressive documentation enhancement''],
     success_criteria =
       [''All systems have complete documentation'',
        ''Documentation follows Sacred Geometry principles'',
        ''User experience is unified and complete''],
     estimated_effort = ''Medium'',
     expected_impact = 0.7\<rparr>"

definition TRIANGLE_001 :: "string \<Rightarrow> OptimizationTask" where
  "TRIANGLE_001 weakest = \<lparr>
     id_task = ''TRIANGLE_001'',
     title = ''Three-Point Architecture Stabilization'',
     priority = (if weakest = ''Triangle'' then PHI_CUBED else PHI_SQUARED),
     pattern = ''Triangle'',
     system = ''All Systems'',
     description = ''Implement three-point stability architecture across all systems'',
     implementation_steps =
       [ [CHR 0xF0, CHR 0x9F, CHR 0x94, CHR 0xBA] @ '' Identify current system dependencies and complexity'',
        [CHR 0xE2, CHR 0x9A, CHR 0x96, CHR 0xEF, CHR 0xB8, CHR 0x8F] @ '' Implement three-tier architecture: Data, Logic, Presentation'',
        [CHR 0xF0, CHR 0x9F, CHR 0x8F, CHR 0x97, CHR 0xEF, CHR 0xB8, CHR 0x8F] @ '' Reduce complexity through modular design'',
        [CHR 0xF0, CHR 0x9F, CHR 0x94, CHR 0x97] @ '' Minimize dependency depth using Sacred Geometry principles'',
        [CHR 0xE2, CHR 0x9A, CHR 0xA1] @ '' Optimize performance through triangular load distribution'',
        [CHR 0xF0, CHR 0x9F, CHR 0x9B, CHR 0xA1, CHR 0xEF, CHR 0xB8, CHR 0x8F] @ '' Implement three-point failure resistance''],
     success_criteria =
       [''All systems achieve Triangle stability score > 0.8'',
        ''Dependency depth reduced to < 5 levels'',
        ''System complexity scores improved by 25%'',
        ''Three-point architecture implemented''],
     estimated_effort = ''Large'',
     expected_impact = 0.9\<rparr>"

definition SPIRAL_001 :: "OptimizationTask" where
  "SPIRAL_001 = \<lparr>
     id_task = ''SPIRAL_001'',
     title = ''Progressive Enhancement Spiral Implementation'',
     priority = PHI_SQUARED,
     pattern = ''Spiral'',
     system = ''All Systems'',
     description = ''Implement spiral growth patterns for scalable system evolution'',
     implementation_steps =
       [ [CHR 0xF0, CHR 0x9F, CHR 0x8C, CHR 0x80] @ '' Analyze current growth patterns and scalability'',
        [CHR 0xF0, CHR 0x9F, CHR 0x93, CHR 0x88] @ '' Design progressive enhancement methodology'',
        [CHR 0xF0, CHR 0x9F, CHR 0x94, CHR 0x84] @ '' Implement iterative development cycles'',
        [CHR 0xF0, CHR 0x9F, CHR 0x93, CHR 0x8A] @ '' Apply logarithmic growth principles'',
        [CHR 0xF0, CHR 0x9F, CHR 0x8E, CHR 0xAF] @ '' Create scalability metrics and monitoring'',
        [CHR 0xF0, CHR 0x9F, CHR 0x9A, CHR 0x80] @ '' Establish continuous improvement spiral''],
     success_criteria =
       [''Spiral growth score > 0.8 for all systems'',
        ''Scalability patterns documented and implemented'',
        ''Growth follows mathematical progression'',
        ''Systems demonstrate evolutionary enhancement''],
     estimated_effort = ''Medium'',
     expected_impact = 0.75\<rparr>"

definition GOLDEN_RATIO_001 :: "OptimizationTask" where
  "GOLDEN_RATIO_001 = \<lparr>
     id_task = ''GOLDEN_RATIO_001'',
     title = [CHR 0xCF, CHR 0x86] @ '' = PHI System Proportion Optimization'',
     priority = PHI_CUBED,
     pattern = ''Golden Ratio'',
     system = ''All Systems'',
     description = ''Apply Golden Ratio mathematical optimization across all system proportions'',
     implementation_steps =
       [ [CHR 0xF0, CHR 0x9F, CHR 0x93, CHR 0x90] @ '' Audit current system proportions and ratios'',
        [CHR 0xF0, CHR 0x9F, CHR 0xA7, CHR 0xAE] @ '' Calculate '' @ [CHR 0xCF, CHR 0x86] @ ''-optimal ratios for: code/tests, files/modules, complexity/maintainability'',
        [CHR 0xE2, CHR 0x9A, CHR 0x96, CHR 0xEF, CHR 0xB8, CHR 0x8F] @ '' Implement Golden Ratio in API design (response times, payload sizes)'',
        [CHR 0xF0, CHR 0x9F, CHR 0x8E, CHR 0xA8] @ '' Apply '' @ [CHR 0xCF, CHR 0x86] @ '' to user interface proportions and layouts'',
        [CHR 0xE2, CHR 0x8F, CHR 0xB1, CHR 0xEF, CHR 0xB8, CHR 0x8F] @ '' Optimize performance timing using Golden Ratio intervals'',
        [CHR 0xF0, CHR 0x9F, CHR 0x93, CHR 0x8A] @ '' Create Golden Ratio monitoring and metrics'',
        [CHR 0xF0, CHR 0x9F, CHR 0x94, CHR 0x8D] @ '' Validate improvements through mathematical analysis''],
     success_criteria =
       [''System ratios align with '' @ [CHR 0xCF, CHR 0x86] @ '' = PHI (within 20% tolerance)'',
        ''Golden Ratio optimization score > 0.8'',
        ''Performance improvements measurable'',
        ''Mathematical harmony demonstrated across systems''],
     estimated_effort = ''Large'',
     expected_impact = 0.95\<rparr>"

definition GOLDEN_RATIO_002 :: "OptimizationTask" where
  "GOLDEN_RATIO_002 = \<lparr>
     id_task = ''GOLDEN_RATIO_002'',
     title = ''Sacred Geometry Performance Optimization'',
     priority = PHI,
     pattern = ''Golden Ratio'',
     system = ''Core Systems'',
     description = ''Apply '' @ [CHR 0xCF, CHR 0x86] @ '' principles to optimize system performance characteristics'',
     implementation_steps =
       [ [CHR 0xE2, CHR 0x9A, CHR 0xA1] @ '' Analyze current performance bottlenecks'',
        [CHR 0xF0, CHR 0x9F, CHR 0x93, CHR 0x90] @ '' Apply Golden Ratio to: cache sizes, timeout values, retry intervals'',
        [CHR 0xF0, CHR 0x9F, CHR 0x94, CHR 0x84] @ '' Implement '' @ [CHR 0xCF, CHR 0x86] @ ''-based load balancing algorithms'',
        [CHR 0xF0, CHR 0x9F, CHR 0x93, CHR 0x8A] @ '' Create performance metrics aligned with Sacred Geometry'',
        [CHR 0xF0, CHR 0x9F, CHR 0x8E, CHR 0xAF] @ '' Optimize resource allocation using mathematical principles''],
     success_criteria =
       [''Performance improvements > 20%'',
        ''Resource utilization follows '' @ [CHR 0xCF, CHR 0x86] @ '' proportions'',
        ''System responsiveness optimized''],
     estimated_effort = ''Medium'',
     expected_impact = 0.8\<rparr>"

definition FRACTAL_001 :: "OptimizationTask" where
  "FRACTAL_001 = \<lparr>
     id_task = ''FRACTAL_001'',
     title = ''Self-Similar Pattern Consistency Implementation'',
     priority = PHI,
     pattern = ''Fractal'',
     system = ''All Systems'',
     description = ''Implement fractal self-similarity patterns across all system scales'',
     implementation_steps =
       [ [CHR 0xE2, CHR 0x99, CHR 0xBE, CHR 0xEF, CHR 0xB8, CHR 0x8F] @ '' Identify current pattern inconsistencies across scales'',
        [CHR 0xF0, CHR 0x9F, CHR 0x94, CHR 0x8D] @ '' Design self-similar architectural patterns'',
        [CHR 0xF0, CHR 0x9F, CHR 0x93, CHR 0x8B] @ '' Create consistent coding standards and conventions'',
        [CHR 0xF0, CHR 0x9F, CHR 0x8F, CHR 0x97, CHR 0xEF, CHR 0xB8, CHR 0x8F] @ '' Implement recursive design patterns'',
        [CHR 0xF0, CHR 0x9F, CHR 0x93, CHR 0x90] @ '' Apply scale-invariant Sacred Geometry principles'',
        [CHR 0xF0, CHR 0x9F, CHR 0x94, CHR 0x84] @ '' Establish pattern propagation mechanisms''],
     success_criteria =
       [''Fractal consistency score > 0.8'',
        ''Patterns consistent across all system scales'',
        ''Self-similarity mathematically verifiable'',
        ''Recursive structures implemented''],
     estimated_effort = ''Medium'',
     expected_impact = 0.7\<rparr>"

subsection \<open>\<open>_analyze_current_state\<close>\<close>

text \<open>
  Returns the three attributes it sets. The key function of \<open>min\<close> and \<open>max\<close> is
  \<open>lambda k: pattern_scores[k]\<close>.
\<close>

definition get_avg_scores :: "analysis_data_obj \<Rightarrow> (string \<rightharpoonup> real)" where
  "get_avg_scores data =
     (let overall = (case overall_analysis data of
                       None \<Rightarrow> \<lparr>average_scores = None\<rparr> | Some ov \<Rightarrow> ov)
      in case average_scores overall of None \<Rightarrow> Map.empty | Some m \<Rightarrow> m)"

text \<open>The dictionary literal \<open>pattern_scores\<close>, in its insertion order.\<close>

definition build_pattern_scores :: "(string \<rightharpoonup> real) \<Rightarrow> (string \<times> real) list" where
  "build_pattern_scores avg_scores =
     [(''Circle'', dict_get avg_scores ''circle_completeness'' 0),
      (''Triangle'', dict_get avg_scores ''triangle_stability'' 0),
      (''Spiral'', dict_get avg_scores ''spiral_growth'' 0),
      (''Golden Ratio'', dict_get avg_scores ''golden_ratio_optimization'' 0),
      (''Fractal'', dict_get avg_scores ''fractal_consistency'' 0)]"

definition analyze_current_state :: "analysis_data_obj \<Rightarrow> error + analysis_state" where
  "analyze_current_state data =
     (let avg_scores = get_avg_scores data;
          scores = build_pattern_scores avg_scores
      in bind_result (py_min (map fst scores) (dict_item scores)) (\<lambda>weakest.
         bind_result (py_max (map fst scores) (dict_item scores)) (\<lambda>strongest.
         Inr \<lparr>weakest_pattern = weakest,
              strongest_pattern = strongest,
              pattern_scores = scores\<rparr>)))"

subsection \<open>The task generators\<close>

text \<open>
  Each generator reads \<open>self.pattern_scores\<close> (and \<open>self.weakest_pattern\<close>) and appends
  to \<open>self.optimization_tasks\<close>; here it takes the task list and returns the new one.
\<close>

definition generate_circle_tasks ::
  "analysis_state \<Rightarrow> OptimizationTask list \<Rightarrow> error + OptimizationTask list" where
  "generate_circle_tasks st tasks =
     bind_result (dict_item (pattern_scores st) ''Circle'') (\<lambda>circle_score.
       let tasks1 = (if circle_score < 0.7 then tasks @ [CIRCLE_001] else tasks);
           tasks2 = (if circle_score < 0.8 then tasks1 @ [CIRCLE_002] else tasks1)
       in Inr tasks2)"

definition generate_triangle_tasks ::
  "analysis_state \<Rightarrow> OptimizationTask list \<Rightarrow> error + OptimizationTask list" where
  "generate_triangle_tasks st tasks =
     bind_result (dict_item (pattern_scores st) ''Triangle'') (\<lambda>triangle_score.
       if triangle_score < 0.7 then Inr (tasks @ [TRIANGLE_001 (weakest_pattern st)])
       else Inr tasks)"

definition generate_spiral_tasks ::
  "analysis_state \<Rightarrow> OptimizationTask list \<Rightarrow> error + OptimizationTask list" where
  "generate_spiral_tasks st tasks =
     bind_result (dict_item (pattern_scores st) ''Spiral'') (\<lambda>spiral_score.
       if spiral_score < 0.7 then Inr (tasks @ [SPIRAL_001]) else Inr tasks)"

definition generate_golden_ratio_tasks ::
  "analysis_state \<Rightarrow> OptimizationTask list \<Rightarrow> error + OptimizationTask list" where
  "generate_golden_ratio_tasks st tasks =
     bind_result (dict_item (pattern_scores st) ''Golden Ratio'') (\<lambda>golden_ratio_score.
       let tasks1 = (if golden_ratio_score < 0.5 then tasks @ [GOLDEN_RATIO_001] else tasks)
       in Inr (tasks1 @ [GOLDEN_RATIO_002]))"

definition generate_fractal_tasks ::
  "analysis_state \<Rightarrow> OptimizationTask list \<Rightarrow> error + OptimizationTask list" where
  "generate_fractal_tasks st tasks =
     bind_result (dict_item (pattern_scores st) ''Fractal'') (\<lambda>fractal_score.
       if fractal_score < 0.7 then Inr (tasks @ [FRACTAL_001]) else Inr tasks)"

subsection \<open>Prioritisation and the priority names\<close>

definition prioritize_tasks :: "OptimizationTask list \<Rightarrow> OptimizationTask list" where
  "prioritize_tasks tasks = py_sort priority True tasks"

definition name_CRITICAL :: string where
  "name_CRITICAL = [CHR 0xCF, CHR 0x86, CHR 0xC2, CHR 0xB3] @ '' CRITICAL''"

definition name_HIGH :: string where
  "name_HIGH = [CHR 0xCF, CHR 0x86, CHR 0xC2, CHR 0xB2] @ '' HIGH''"

definition name_MEDIUM :: string where
  "name_MEDIUM = [CHR 0xCF, CHR 0x86, CHR 0xC2, CHR 0xB9] @ '' MEDIUM''"

definition name_LOW :: string where
  "name_LOW = [CHR 0xCF, CHR 0x86, CHR 0xE2, CHR 0x81, CHR 0xB0] @ '' LOW''"

definition get_priority_name :: "real \<Rightarrow> string" where
  "get_priority_name p =
     (if p \<ge> PHI_CUBED then name_CRITICAL
      else if p \<ge> PHI_SQUARED then name_HIGH
      else if p \<ge> PHI then name_MEDIUM
      else name_LOW)"

definition task_to_dict :: "OptimizationTask \<Rightarrow> task_dict" where
  "task_to_dict task =
     \<lparr>d_id = id_task task,
      d_title = title task,
      d_priority = priority task,
      d_priority_name = get_priority_name (priority task),
      d_pattern = pattern task,
      d_system = system task,
      d_description = description task,
      d_implementation_steps = implementation_steps task,
      d_success_criteria = success_criteria task,
      d_estimated_effort = estimated_effort task,
      d_expected_impact = expected_impact task\<rparr>"

subsection \<open>\<open>_create_implementation_roadmap\<close> and \<open>_generate_next_actions\<close>\<close>

definition generate_next_actions ::
  "analysis_state \<Rightarrow> OptimizationTask list \<Rightarrow> error + string list" where
  "generate_next_actions st tasks =
     (if tasks = [] then
        Inr [''Run Sacred Geometry analysis to identify optimization opportunities'']
      else
        bind_result (list_item tasks 0) (\<lambda>top_task.
          Inr [ [CHR 0xF0, CHR 0x9F, CHR 0x8E, CHR 0xAF] @ '' START: '' @ title top_task,
               [CHR 0xF0, CHR 0x9F, CHR 0x93, CHR 0x90] @ '' Focus on '' @ weakest_pattern st
                 @ '' pattern improvement'',
               [CHR 0xF0, CHR 0x9F, CHR 0x94, CHR 0x84]
                 @ '' Run Sacred Geometry analysis weekly to track progress'',
               [CHR 0xF0, CHR 0x9F, CHR 0x93, CHR 0x8A] @ '' Measure improvements using ''
                 @ [CHR 0xCF, CHR 0x86] @ ''-based metrics'',
               [CHR 0xF0, CHR 0x9F, CHR 0x8C, CHR 0x9F]
                 @ '' Celebrate Sacred Geometry alignment milestones'']))"

text \<open>
  The expression
  \<open>sum(t.expected_impact for t in ts) / len(ts) if ts else 0\<close>,
  which the roadmap evaluates once per phase.
\<close>

definition phase_impact :: "OptimizationTask list \<Rightarrow> error + real" where
  "phase_impact ts =
     (if ts \<noteq> [] then py_truediv (sum_list (map expected_impact ts)) (real (length ts))
      else Inr 0)"

text \<open>The argument \<open>now\<close> is the value that \<open>time.time()\<close> returns.\<close>

definition create_implementation_roadmap ::
  "real \<Rightarrow> analysis_state \<Rightarrow> OptimizationTask list \<Rightarrow> error + roadmap" where
  "create_implementation_roadmap now st tasks =
     (let immediate_tasks = filter (\<lambda>t. priority t \<ge> PHI_SQUARED) tasks;
          progressive_tasks =
            filter (\<lambda>t. PHI \<le> priority t \<and> priority t < PHI_SQUARED) tasks;
          future_tasks = filter (\<lambda>t. priority t < PHI) tasks
      in bind_result (phase_impact immediate_tasks) (\<lambda>impact1.
         bind_result (phase_impact progressive_tasks) (\<lambda>impact2.
         bind_result (phase_impact future_tasks) (\<lambda>impact3.
         bind_result (generate_next_actions st tasks) (\<lambda>actions.
         Inr \<lparr>analysis_timestamp = now,
              current_sacred_geometry_score = pattern_scores st,
              optimization_strategy =
                [CHR 0xCF, CHR 0x86] @ ''-Priority Sacred Geometry Enhancement'',
              phases =
                \<lparr>phase_1_immediate =
                   \<lparr>phase_name = [CHR 0xCF, CHR 0x86, CHR 0xC2, CHR 0xB3]
                      @ '' Critical Foundation (Weeks 1-2)'',
                    phase_description =
                      ''Address highest priority Sacred Geometry improvements'',
                    phase_tasks = map task_to_dict immediate_tasks,
                    phase_expected_impact = impact1\<rparr>,
                 phase_2_progressive =
                   \<lparr>phase_name = [CHR 0xCF, CHR 0x86, CHR 0xC2, CHR 0xB2]
                      @ '' Progressive Enhancement (Weeks 3-6)'',
                    phase_description = ''Implement scalable Sacred Geometry patterns'',
                    phase_tasks = map task_to_dict progressive_tasks,
                    phase_expected_impact = impact2\<rparr>,
                 phase_3_optimization =
                   \<lparr>phase_name = [CHR 0xCF, CHR 0x86, CHR 0xC2, CHR 0xB9]
                      @ '' Continuous Optimization (Ongoing)'',
                    phase_description = ''Maintain and enhance Sacred Geometry alignment'',
                    phase_tasks = map task_to_dict future_tasks,
                    phase_expected_impact = impact3\<rparr>\<rparr>,
              success_metrics =
                \<lparr>target_sacred_geometry_score = 0.85,
                 expected_timeline = ''6-8 weeks'',
                 key_patterns_to_improve = [weakest_pattern st],
                 measurement_intervals = ''Weekly Sacred Geometry analysis''\<rparr>,
              next_actions = actions\<rparr>)))))"

subsection \<open>\<open>generate_optimization_plan\<close>\<close>

text \<open>
  The analysis followed by the five generators, in the order of the source: the state of
  \<open>self\<close> before \<open>_prioritize_tasks\<close> runs.
\<close>

definition run_generators :: "optimizer \<Rightarrow> error + analysis_state \<times> OptimizationTask list" where
  "run_generators self =
     bind_result (analyze_current_state (analysis_data self)) (\<lambda>st.
     bind_result (generate_circle_tasks st (optimization_tasks self)) (\<lambda>t1.
     bind_result (generate_triangle_tasks st t1) (\<lambda>t2.
     bind_result (generate_spiral_tasks st t2) (\<lambda>t3.
     bind_result (generate_golden_ratio_tasks st t3) (\<lambda>t4.
     bind_result (generate_fractal_tasks st t4) (\<lambda>t5.
     Inr (st, t5)))))))"

definition generate_optimization_plan :: "real \<Rightarrow> optimizer \<Rightarrow> error + roadmap" where
  "generate_optimization_plan now self =
     bind_result (run_generators self) (\<lambda>(st, tasks).
       create_implementation_roadmap now st (prioritize_tasks tasks))"

subsection \<open>Notions used to state the properties\<close>

text \<open>The keys of \<open>pattern_scores\<close>, in declaration order.\<close>

definition categories :: "string list" where
  "categories = [''Circle'', ''Triangle'', ''Spiral'', ''Golden Ratio'', ''Fractal'']"

text \<open>The score of a category in \<open>pattern_scores\<close>, as the generators read it.\<close>

definition score_of :: "analysis_data_obj \<Rightarrow> string \<Rightarrow> error + real" where
  "score_of data c = dict_item (build_pattern_scores (get_avg_scores data)) c"

text \<open>An analysis document whose \<open>average_scores\<close> holds the given entries.\<close>

definition report_of :: "(string \<times> real) list \<Rightarrow> analysis_data_obj" where
  "report_of entries =
     \<lparr>overall_analysis = Some \<lparr>average_scores = Some (map_of entries)\<rparr>\<rparr>"

text \<open>The generated tasks that carry a given identifier.\<close>

definition tasks_with_id :: "string \<Rightarrow> OptimizationTask list \<Rightarrow> OptimizationTask list" where
  "tasks_with_id i tasks = filter (\<lambda>t. id_task t = i) tasks"

text \<open>
  The primary task of a category is the task numbered \<open>001\<close> that its generator
  creates under a score threshold.
\<close>

definition primary_task_id :: "string \<Rightarrow> string" where
  "primary_task_id c =
     (if c = ''Circle'' then ''CIRCLE_001''
      else if c = ''Triangle'' then ''TRIANGLE_001''
      else if c = ''Spiral'' then ''SPIRAL_001''
      else if c = ''Golden Ratio'' then ''GOLDEN_RATIO_001''
      else if c = ''Fractal'' then ''FRACTAL_001''
      else [])"

text \<open>
  The primary rule in the words of the specification: for every category, a primary
  task exists exactly when the score is below \<open>0.7\<close>, and it weighs \<open>PHI_CUBED\<close> when
  the category is the weakest one, \<open>PHI_SQUARED\<close> otherwise.
\<close>

definition spec_primary_rule :: "analysis_state \<Rightarrow> OptimizationTask list \<Rightarrow> bool" where
  "spec_primary_rule st tasks =
     list_all (\<lambda>(c, v).
        map priority (tasks_with_id (primary_task_id c) tasks) =
          (if v < 0.7 then [if c = weakest_pattern st then PHI_CUBED else PHI_SQUARED]
           else []))
       (pattern_scores st)"

definition spec_primary_rule_holds :: "analysis_data_obj \<Rightarrow> bool" where
  "spec_primary_rule_holds data =
     (case run_generators (optimizer_init data) of
        Inl e \<Rightarrow> False
      | Inr (st, tasks) \<Rightarrow> spec_primary_rule st tasks)"

text \<open>Every category of the document scores at least \<open>x\<close>.\<close>

definition all_scores_at_least :: "real \<Rightarrow> analysis_data_obj \<Rightarrow> bool" where
  "all_scores_at_least x data =
     list_all (\<lambda>c. case score_of data c of Inl e \<Rightarrow> False | Inr v \<Rightarrow> x \<le> v) categories"

text \<open>The three task lists of a roadmap and the fallback list of next actions.\<close>

definition phase1_tasks :: "roadmap \<Rightarrow> task_dict list" where
  "phase1_tasks r = phase_tasks (phase_1_immediate (phases r))"

definition phase2_tasks :: "roadmap \<Rightarrow> task_dict list" where
  "phase2_tasks r = phase_tasks (phase_2_progressive (phases r))"

definition phase3_tasks :: "roadmap \<Rightarrow> task_dict list" where
  "phase3_tasks r = phase_tasks (phase_3_optimization (phases r))"

definition phase1_impact :: "roadmap \<Rightarrow> real" where
  "phase1_impact r = phase_expected_impact (phase_1_immediate (phases r))"

definition phase2_impact :: "roadmap \<Rightarrow> real" where
  "phase2_impact r = phase_expected_impact (phase_2_progressive (phases r))"

definition phase3_impact :: "roadmap \<Rightarrow> real" where
  "phase3_impact r = phase_expected_impact (phase_3_optimization (phases r))"

definition fallback_actions :: "string list" where
  "fallback_actions = [''Run Sacred Geometry analysis to identify optimization opportunities'']"

text \<open>
  Scenario B in the words of the specification: no task is generated, the three phases
  are empty with aggregate impact \<open>0\<close>, and the next actions are the single fallback
  message.
\<close>

definition spec_scenario_B_outcome :: "real \<Rightarrow> analysis_data_obj \<Rightarrow> bool" where
  "spec_scenario_B_outcome now data =
     (case run_generators (optimizer_init data) of
        Inl e \<Rightarrow> False
      | Inr (st, tasks) \<Rightarrow>
          tasks = [] \<and>
          (case generate_optimization_plan now (optimizer_init data) of
             Inl e \<Rightarrow> False
           | Inr r \<Rightarrow>
               phase1_tasks r = [] \<and> phase2_tasks r = [] \<and> phase3_tasks r = [] \<and>
               phase1_impact r = 0 \<and> phase2_impact r = 0 \<and> phase3_impact r = 0 \<and>
               next_actions r = fallback_actions))"

text \<open>The next actions when a top task exists, as \<open>_generate_next_actions\<close> lists them.\<close>

definition actions_for :: "string \<Rightarrow> string \<Rightarrow> string list" where
  "actions_for top_title weakest =
     [ [CHR 0xF0, CHR 0x9F, CHR 0x8E, CHR 0xAF] @ '' START: '' @ top_title,
      [CHR 0xF0, CHR 0x9F, CHR 0x93, CHR 0x90] @ '' Focus on '' @ weakest
        @ '' pattern improvement'',
      [CHR 0xF0, CHR 0x9F, CHR 0x94, CHR 0x84]
        @ '' Run Sacred Geometry analysis weekly to track progress'',
      [CHR 0xF0, CHR 0x9F, CHR 0x93, CHR 0x8A] @ '' Measure improvements using ''
        @ [CHR 0xCF, CHR 0x86] @ ''-based metrics'',
      [CHR 0xF0, CHR 0x9F, CHR 0x8C, CHR 0x9F]
        @ '' Celebrate Sacred Geometry alignment milestones'']"

text \<open>The arithmetic mean of a list of impacts, \<open>0\<close> for the empty list.\<close>

definition mean_impact :: "real list \<Rightarrow> real" where
  "mean_impact xs = (if xs = [] then 0 else sum_list xs / real (length xs))"

text \<open>
  The key of \<open>average_scores\<close> that feeds each category, and the identifiers of the
  tasks that each category creates under a score threshold.
\<close>

definition score_keys :: "(string \<times> string) list" where
  "score_keys =
     [(''Circle'', ''circle_completeness''),
      (''Triangle'', ''triangle_stability''),
      (''Spiral'', ''spiral_growth''),
      (''Golden Ratio'', ''golden_ratio_optimization''),
      (''Fractal'', ''fractal_consistency'')]"

definition gated_task_ids :: "string \<Rightarrow> string list" where
  "gated_task_ids c =
     (if c = ''Circle'' then [''CIRCLE_001'', ''CIRCLE_002'']
      else if c = ''Triangle'' then [''TRIANGLE_001'']
      else if c = ''Spiral'' then [''SPIRAL_001'']
      else if c = ''Golden Ratio'' then [''GOLDEN_RATIO_001'']
      else if c = ''Fractal'' then [''FRACTAL_001'']
      else [])"

subsection \<open>Concrete analysis documents\<close>

text \<open>Spiral is the weakest category and is below \<open>0.7\<close>; the others are at \<open>0.9\<close>.\<close>

definition report_spiral_weakest :: analysis_data_obj where
  "report_spiral_weakest =
     report_of [(''circle_completeness'', 0.9), (''triangle_stability'', 0.9),
                (''spiral_growth'', 0.3), (''golden_ratio_optimization'', 0.9),
                (''fractal_consistency'', 0.9)]"

text \<open>Every category scores \<open>0.9\<close>.\<close>

definition report_all_high :: analysis_data_obj where
  "report_all_high =
     report_of [(''circle_completeness'', 0.9), (''triangle_stability'', 0.9),
                (''spiral_growth'', 0.9), (''golden_ratio_optimization'', 0.9),
                (''fractal_consistency'', 0.9)]"

text \<open>A document whose \<open>average_scores\<close> is the empty dictionary.\<close>

definition report_empty :: analysis_data_obj where
  "report_empty = report_of []"

text \<open>Two ties: Triangle and Spiral at the minimum, Golden Ratio and Fractal at the maximum.\<close>

definition report_ties :: analysis_data_obj where
  "report_ties =
     report_of [(''circle_completeness'', 0.5), (''triangle_stability'', 0.3),
                (''spiral_growth'', 0.3), (''golden_ratio_optimization'', 0.9),
                (''fractal_consistency'', 0.9)]"

text \<open>Every category is low; the entry of Fractal is missing.\<close>

definition report_mixed :: analysis_data_obj where
  "report_mixed =
     report_of [(''circle_completeness'', 0.6), (''triangle_stability'', 0.2),
                (''spiral_growth'', 0.65), (''golden_ratio_optimization'', 0.4)]"


section \<open>Basic facts\<close>

subsection \<open>The weight ladder\<close>

lemma PHI_gt_1: "1 < PHI"
  by (simp add: PHI_def)

lemma PHI_lt_SQUARED: "PHI < PHI_SQUARED"
  using PHI_gt_1 by (simp add: PHI_SQUARED_def power2_eq_square)

lemma SQUARED_lt_CUBED: "PHI_SQUARED < PHI_CUBED"
  using PHI_gt_1 by (simp add: PHI_SQUARED_def PHI_CUBED_def power_strict_increasing)

lemma PHI_order:
  "PHI \<le> PHI_SQUARED" "PHI_SQUARED \<le> PHI_CUBED" "PHI \<le> PHI_CUBED"
  "PHI < PHI_SQUARED" "PHI_SQUARED < PHI_CUBED" "PHI < PHI_CUBED"
  "\<not> PHI_SQUARED \<le> PHI" "\<not> PHI_CUBED \<le> PHI_SQUARED" "\<not> PHI_CUBED \<le> PHI"
  "\<not> PHI_SQUARED < PHI" "\<not> PHI_CUBED < PHI_SQUARED" "\<not> PHI_CUBED < PHI"
  "PHI \<noteq> PHI_SQUARED" "PHI_SQUARED \<noteq> PHI_CUBED" "PHI \<noteq> PHI_CUBED"
  "PHI_SQUARED \<noteq> PHI" "PHI_CUBED \<noteq> PHI_SQUARED" "PHI_CUBED \<noteq> PHI"
  using PHI_lt_SQUARED SQUARED_lt_CUBED by simp_all

subsection \<open>\<open>min\<close> and \<open>max\<close> return the first extremal item\<close>

lemma min_loop_first:
  assumes "\<forall>x\<in>set xs. key x = Inr (f x)"
    and "i < length ps"
    and "\<forall>j<length ps. f (ps ! i) \<le> f (ps ! j)"
    and "\<forall>j<i. f (ps ! i) < f (ps ! j)"
  shows "\<exists>k<length (ps @ xs).
           min_loop key xs (ps ! i) (f (ps ! i)) = Inr ((ps @ xs) ! k) \<and>
           (\<forall>j<length (ps @ xs). f ((ps @ xs) ! k) \<le> f ((ps @ xs) ! j)) \<and>
           (\<forall>j<k. f ((ps @ xs) ! k) < f ((ps @ xs) ! j))"
  using assms
proof (induction xs arbitrary: ps i)
  case Nil
  then show ?case by auto
next
  case (Cons x xs)
  have kx: "key x = Inr (f x)" and rest: "\<forall>y\<in>set xs. key y = Inr (f y)"
    using Cons.prems(1) by simp_all
  show ?case
  proof (cases "f x < f (ps ! i)")
    case True
    let ?ps = "ps @ [x]"
    have a: "length ps < length ?ps" by simp
    have b: "\<forall>j<length ?ps. f (?ps ! length ps) \<le> f (?ps ! j)"
      using True Cons.prems(3) by (auto simp: nth_append less_Suc_eq intro: order.strict_implies_order order.strict_trans2)
    have c: "\<forall>j<length ps. f (?ps ! length ps) < f (?ps ! j)"
      using True Cons.prems(3) by (auto simp: nth_append intro: order.strict_trans2)
    from Cons.IH[OF rest a b c] True kx show ?thesis by simp
  next
    case False
    let ?ps = "ps @ [x]"
    have a: "i < length ?ps" using Cons.prems(2) by simp
    have e: "?ps ! i = ps ! i" using Cons.prems(2) by (simp add: nth_append)
    have b: "\<forall>j<length ?ps. f (?ps ! i) \<le> f (?ps ! j)"
      using False Cons.prems(2,3) by (auto simp: nth_append less_Suc_eq)
    have c: "\<forall>j<i. f (?ps ! i) < f (?ps ! j)"
      using Cons.prems(2,4) by (auto simp: nth_append)
    from Cons.IH[OF rest a b c] False kx e show ?thesis by simp
  qed
qed

lemma py_min_first:
  assumes "xs \<noteq> []" and "\<forall>x\<in>set xs. key x = Inr (f x)"
  shows "\<exists>k<length xs. py_min xs key = Inr (xs ! k) \<and>
           (\<forall>j<length xs. f (xs ! k) \<le> f (xs ! j)) \<and>
           (\<forall>j<k. f (xs ! k) < f (xs ! j))"
proof -
  obtain x rest where xs: "xs = x # rest" using assms(1) by (cases xs) auto
  have "\<exists>k<length ([x] @ rest).
           min_loop key rest ([x] ! 0) (f ([x] ! 0)) = Inr (([x] @ rest) ! k) \<and>
           (\<forall>j<length ([x] @ rest). f (([x] @ rest) ! k) \<le> f (([x] @ rest) ! j)) \<and>
           (\<forall>j<k. f (([x] @ rest) ! k) < f (([x] @ rest) ! j))"
    by (rule min_loop_first) (use assms(2) xs in auto)
  then show ?thesis using assms(2) xs by (simp add: py_min_def)
qed

lemma max_loop_first:
  assumes "\<forall>x\<in>set xs. key x = Inr (f x)"
    and "i < length ps"
    and "\<forall>j<length ps. f (ps ! j) \<le> f (ps ! i)"
    and "\<forall>j<i. f (ps ! j) < f (ps ! i)"
  shows "\<exists>k<length (ps @ xs).
           max_loop key xs (ps ! i) (f (ps ! i)) = Inr ((ps @ xs) ! k) \<and>
           (\<forall>j<length (ps @ xs). f ((ps @ xs) ! j) \<le> f ((ps @ xs) ! k)) \<and>
           (\<forall>j<k. f ((ps @ xs) ! j) < f ((ps @ xs) ! k))"
  using assms
proof (induction xs arbitrary: ps i)
  case Nil
  then show ?case by auto
next
  case (Cons x xs)
  have kx: "key x = Inr (f x)" and rest: "\<forall>y\<in>set xs. key y = Inr (f y)"
    using Cons.prems(1) by simp_all
  show ?case
  proof (cases "f x > f (ps ! i)")
    case True
    let ?ps = "ps @ [x]"
    have a: "length ps < length ?ps" by simp
    have b: "\<forall>j<length ?ps. f (?ps ! j) \<le> f (?ps ! length ps)"
      using True Cons.prems(3) by (auto simp: nth_append less_Suc_eq intro: order.strict_implies_order order.strict_trans1)
    have c: "\<forall>j<length ps. f (?ps ! j) < f (?ps ! length ps)"
      using True Cons.prems(3) by (auto simp: nth_append intro: order.strict_trans1)
    from Cons.IH[OF rest a b c] True kx show ?thesis by simp
  next
    case False
    let ?ps = "ps @ [x]"
    have a: "i < length ?ps" using Cons.prems(2) by simp
    have e: "?ps ! i = ps ! i" using Cons.prems(2) by (simp add: nth_append)
    have b: "\<forall>j<length ?ps. f (?ps ! j) \<le> f (?ps ! i)"
      using False Cons.prems(2,3) by (auto simp: nth_append less_Suc_eq)
    have c: "\<forall>j<i. f (?ps ! j) < f (?ps ! i)"
      using Cons.prems(2,4) by (auto simp: nth_append)
    from Cons.IH[OF rest a b c] False kx e show ?thesis by simp
  qed
qed

lemma py_max_first:
  assumes "xs \<noteq> []" and "\<forall>x\<in>set xs. key x = Inr (f x)"
  shows "\<exists>k<length xs. py_max xs key = Inr (xs ! k) \<and>
           (\<forall>j<length xs. f (xs ! j) \<le> f (xs ! k)) \<and>
           (\<forall>j<k. f (xs ! j) < f (xs ! k))"
proof -
  obtain x rest where xs: "xs = x # rest" using assms(1) by (cases xs) auto
  have "\<exists>k<length ([x] @ rest).
           max_loop key rest ([x] ! 0) (f ([x] ! 0)) = Inr (([x] @ rest) ! k) \<and>
           (\<forall>j<length ([x] @ rest). f (([x] @ rest) ! j) \<le> f (([x] @ rest) ! k)) \<and>
           (\<forall>j<k. f (([x] @ rest) ! j) < f (([x] @ rest) ! k))"
    by (rule max_loop_first) (use assms(2) xs in auto)
  then show ?thesis using assms(2) xs by (simp add: py_max_def)
qed


lemma dict_item_nth:
  assumes "distinct (map fst d)" and "j < length d"
  shows "dict_item d (fst (d ! j)) = Inr (snd (d ! j))"
proof -
  have "(fst (d ! j), snd (d ! j)) \<in> set d" using assms(2) by simp
  then have "map_of d (fst (d ! j)) = Some (snd (d ! j))"
    using assms(1) by (rule map_of_is_SomeI[rotated])
  then show ?thesis by (simp add: dict_item_def)
qed

lemma py_min_dict:
  assumes "d \<noteq> []" and "distinct (map fst d)"
  shows "\<exists>k<length d. py_min (map fst d) (dict_item d) = Inr (fst (d ! k)) \<and>
           (\<forall>j<length d. snd (d ! k) \<le> snd (d ! j)) \<and>
           (\<forall>j<k. snd (d ! k) < snd (d ! j))"
proof -
  define f where "f = (\<lambda>c. case map_of d c of None \<Rightarrow> (0::real) | Some v \<Rightarrow> v)"
  have fnth: "f (fst (d ! j)) = snd (d ! j)" if "j < length d" for j
    using dict_item_nth[OF assms(2) that] by (simp add: f_def dict_item_def split: option.splits)
  have keys: "\<forall>x\<in>set (map fst d). dict_item d x = Inr (f x)"
  proof
    fix x assume "x \<in> set (map fst d)"
    then obtain j where j: "j < length d" "x = fst (d ! j)"
      by (auto simp: in_set_conv_nth)
    then show "dict_item d x = Inr (f x)"
      using dict_item_nth[OF assms(2) j(1)] fnth[OF j(1)] by simp
  qed
  from py_min_first[of "map fst d" "dict_item d" f, OF _ keys] assms(1)
  obtain k where k: "k < length d" "py_min (map fst d) (dict_item d) = Inr (map fst d ! k)"
    "\<forall>j<length d. f (map fst d ! k) \<le> f (map fst d ! j)"
    "\<forall>j<k. f (map fst d ! k) < f (map fst d ! j)"
    by auto
  show ?thesis
  proof (intro exI[of _ k] conjI allI impI)
    show "k < length d" by (rule k(1))
    show "py_min (map fst d) (dict_item d) = Inr (fst (d ! k))" using k(1,2) by simp
    show "snd (d ! k) \<le> snd (d ! j)" if "j < length d" for j
      using k(1,3) that fnth by (metis nth_map)
    show "snd (d ! k) < snd (d ! j)" if "j < k" for j
    proof -
      have "j < length d" using that k(1) by simp
      then show ?thesis using k(1,4) that fnth by (metis nth_map)
    qed
  qed
qed

lemma py_max_dict:
  assumes "d \<noteq> []" and "distinct (map fst d)"
  shows "\<exists>k<length d. py_max (map fst d) (dict_item d) = Inr (fst (d ! k)) \<and>
           (\<forall>j<length d. snd (d ! j) \<le> snd (d ! k)) \<and>
           (\<forall>j<k. snd (d ! j) < snd (d ! k))"
proof -
  define f where "f = (\<lambda>c. case map_of d c of None \<Rightarrow> (0::real) | Some v \<Rightarrow> v)"
  have fnth: "f (fst (d ! j)) = snd (d ! j)" if "j < length d" for j
    using dict_item_nth[OF assms(2) that] by (simp add: f_def dict_item_def split: option.splits)
  have keys: "\<forall>x\<in>set (map fst d). dict_item d x = Inr (f x)"
  proof
    fix x assume "x \<in> set (map fst d)"
    then obtain j where j: "j < length d" "x = fst (d ! j)"
      by (auto simp: in_set_conv_nth)
    then show "dict_item d x = Inr (f x)"
      using dict_item_nth[OF assms(2) j(1)] fnth[OF j(1)] by simp
  qed
  from py_max_first[of "map fst d" "dict_item d" f, OF _ keys] assms(1)
  obtain k where k: "k < length d" "py_max (map fst d) (dict_item d) = Inr (map fst d ! k)"
    "\<forall>j<length d. f (map fst d ! j) \<le> f (map fst d ! k)"
    "\<forall>j<k. f (map fst d ! j) < f (map fst d ! k)"
    by auto
  show ?thesis
  proof (intro exI[of _ k] conjI allI impI)
    show "k < length d" by (rule k(1))
    show "py_max (map fst d) (dict_item d) = Inr (fst (d ! k))" using k(1,2) by simp
    show "snd (d ! j) \<le> snd (d ! k)" if "j < length d" for j
      using k(1,3) that fnth by (metis nth_map)
    show "snd (d ! j) < snd (d ! k)" if "j < k" for j
    proof -
      have "j < length d" using that k(1) by simp
      then show ?thesis using k(1,4) that fnth by (metis nth_map)
    qed
  qed
qed

lemma build_pattern_scores_keys:
  "map fst (build_pattern_scores avg) = categories"
  by (simp add: build_pattern_scores_def categories_def)

lemma distinct_categories: "distinct categories"
  by (simp add: categories_def)

lemma analyze_current_state_total:
  "\<exists>k<length categories. \<exists>m<length categories.
     analyze_current_state data =
       Inr \<lparr>weakest_pattern = categories ! k, strongest_pattern = categories ! m,
            pattern_scores = build_pattern_scores (get_avg_scores data)\<rparr>"
proof -
  let ?d = "build_pattern_scores (get_avg_scores data)"
  have ne: "?d \<noteq> []" by (simp add: build_pattern_scores_def)
  have di: "distinct (map fst ?d)" by (simp add: build_pattern_scores_keys distinct_categories)
  have len: "length ?d = length categories"
    using build_pattern_scores_keys[of "get_avg_scores data"] by (metis length_map)
  obtain k where k: "k < length ?d" "py_min (map fst ?d) (dict_item ?d) = Inr (fst (?d ! k))"
    using py_min_dict[OF ne di] by blast
  obtain m where m: "m < length ?d" "py_max (map fst ?d) (dict_item ?d) = Inr (fst (?d ! m))"
    using py_max_dict[OF ne di] by blast
  have fk: "fst (?d ! k) = categories ! k" using k(1) build_pattern_scores_keys[of "get_avg_scores data"] by (metis nth_map)
  have fm: "fst (?d ! m) = categories ! m" using m(1) build_pattern_scores_keys[of "get_avg_scores data"] by (metis nth_map)
  show ?thesis
    using k m fk fm len by (auto simp: analyze_current_state_def Let_def bind_result_def)
qed


lemma task_ids:
  "id_task CIRCLE_001 = ''CIRCLE_001''"
  "id_task CIRCLE_002 = ''CIRCLE_002''"
  "id_task (TRIANGLE_001 w) = ''TRIANGLE_001''"
  "id_task SPIRAL_001 = ''SPIRAL_001''"
  "id_task GOLDEN_RATIO_001 = ''GOLDEN_RATIO_001''"
  "id_task GOLDEN_RATIO_002 = ''GOLDEN_RATIO_002''"
  "id_task FRACTAL_001 = ''FRACTAL_001''"
  by (simp_all add: CIRCLE_001_def CIRCLE_002_def TRIANGLE_001_def SPIRAL_001_def
      GOLDEN_RATIO_001_def GOLDEN_RATIO_002_def FRACTAL_001_def)

lemma task_priorities:
  "priority CIRCLE_001 = PHI_CUBED"
  "priority CIRCLE_002 = PHI_SQUARED"
  "priority (TRIANGLE_001 w) = (if w = ''Triangle'' then PHI_CUBED else PHI_SQUARED)"
  "priority SPIRAL_001 = PHI_SQUARED"
  "priority GOLDEN_RATIO_001 = PHI_CUBED"
  "priority GOLDEN_RATIO_002 = PHI"
  "priority FRACTAL_001 = PHI"
  by (simp_all add: CIRCLE_001_def CIRCLE_002_def TRIANGLE_001_def SPIRAL_001_def
      GOLDEN_RATIO_001_def GOLDEN_RATIO_002_def FRACTAL_001_def)

lemma task_impacts:
  "expected_impact CIRCLE_001 = 0.85"
  "expected_impact CIRCLE_002 = 0.7"
  "expected_impact (TRIANGLE_001 w) = 0.9"
  "expected_impact SPIRAL_001 = 0.75"
  "expected_impact GOLDEN_RATIO_001 = 0.95"
  "expected_impact GOLDEN_RATIO_002 = 0.8"
  "expected_impact FRACTAL_001 = 0.7"
  by (simp_all add: CIRCLE_001_def CIRCLE_002_def TRIANGLE_001_def SPIRAL_001_def
      GOLDEN_RATIO_001_def GOLDEN_RATIO_002_def FRACTAL_001_def)

lemma task_patterns:
  "pattern CIRCLE_001 = ''Circle''"
  "pattern CIRCLE_002 = ''Circle''"
  "pattern (TRIANGLE_001 w) = ''Triangle''"
  "pattern SPIRAL_001 = ''Spiral''"
  "pattern GOLDEN_RATIO_001 = ''Golden Ratio''"
  "pattern GOLDEN_RATIO_002 = ''Golden Ratio''"
  "pattern FRACTAL_001 = ''Fractal''"
  by (simp_all add: CIRCLE_001_def CIRCLE_002_def TRIANGLE_001_def SPIRAL_001_def
      GOLDEN_RATIO_001_def GOLDEN_RATIO_002_def FRACTAL_001_def)

lemma score_of_simps:
  "score_of data ''Circle'' = Inr (dict_get (get_avg_scores data) ''circle_completeness'' 0)"
  "score_of data ''Triangle'' = Inr (dict_get (get_avg_scores data) ''triangle_stability'' 0)"
  "score_of data ''Spiral'' = Inr (dict_get (get_avg_scores data) ''spiral_growth'' 0)"
  "score_of data ''Golden Ratio'' =
     Inr (dict_get (get_avg_scores data) ''golden_ratio_optimization'' 0)"
  "score_of data ''Fractal'' = Inr (dict_get (get_avg_scores data) ''fractal_consistency'' 0)"
  by (simp_all add: score_of_def dict_item_def build_pattern_scores_def)

text \<open>The task list after the five generators, written out.\<close>

lemma run_generators_closed:
  assumes "analyze_current_state data = Inr st"
  shows "run_generators (optimizer_init data) =
     Inr (st,
       (if dict_get (get_avg_scores data) ''circle_completeness'' 0 < 0.7
        then [CIRCLE_001] else []) @
       (if dict_get (get_avg_scores data) ''circle_completeness'' 0 < 0.8
        then [CIRCLE_002] else []) @
       (if dict_get (get_avg_scores data) ''triangle_stability'' 0 < 0.7
        then [TRIANGLE_001 (weakest_pattern st)] else []) @
       (if dict_get (get_avg_scores data) ''spiral_growth'' 0 < 0.7
        then [SPIRAL_001] else []) @
       (if dict_get (get_avg_scores data) ''golden_ratio_optimization'' 0 < 0.5
        then [GOLDEN_RATIO_001] else []) @
       [GOLDEN_RATIO_002] @
       (if dict_get (get_avg_scores data) ''fractal_consistency'' 0 < 0.7
        then [FRACTAL_001] else []))"
proof -
  have ps: "pattern_scores st = build_pattern_scores (get_avg_scores data)"
    using assms analyze_current_state_total[of data] by auto
  have items:
    "dict_item (pattern_scores st) ''Circle'' = score_of data ''Circle''"
    "dict_item (pattern_scores st) ''Triangle'' = score_of data ''Triangle''"
    "dict_item (pattern_scores st) ''Spiral'' = score_of data ''Spiral''"
    "dict_item (pattern_scores st) ''Golden Ratio'' = score_of data ''Golden Ratio''"
    "dict_item (pattern_scores st) ''Fractal'' = score_of data ''Fractal''"
    by (simp_all add: ps score_of_def)
  show ?thesis
    by (simp add: run_generators_def optimizer_init_def assms bind_result_def
        generate_circle_tasks_def generate_triangle_tasks_def generate_spiral_tasks_def
        generate_golden_ratio_tasks_def generate_fractal_tasks_def items score_of_simps Let_def)
qed


subsection \<open>The roadmap builder never fails\<close>

lemma phase_impact_eq: "phase_impact ts = Inr (mean_impact (map expected_impact ts))"
  by (simp add: phase_impact_def mean_impact_def py_truediv_def)

lemma generate_next_actions_eq:
  "generate_next_actions st ts =
     Inr (if ts = [] then fallback_actions
          else actions_for (title (hd ts)) (weakest_pattern st))"
  by (cases ts)
    (simp_all add: generate_next_actions_def fallback_actions_def actions_for_def
      list_item_def bind_result_def)

lemma create_implementation_roadmap_props:
  "\<exists>r. create_implementation_roadmap now st ts = Inr r \<and>
     analysis_timestamp r = now \<and>
     phase1_tasks r = map task_to_dict (filter (\<lambda>t. priority t \<ge> PHI_SQUARED) ts) \<and>
     phase2_tasks r =
       map task_to_dict (filter (\<lambda>t. PHI \<le> priority t \<and> priority t < PHI_SQUARED) ts) \<and>
     phase3_tasks r = map task_to_dict (filter (\<lambda>t. priority t < PHI) ts) \<and>
     phase1_impact r =
       mean_impact (map expected_impact (filter (\<lambda>t. priority t \<ge> PHI_SQUARED) ts)) \<and>
     phase2_impact r =
       mean_impact (map expected_impact
         (filter (\<lambda>t. PHI \<le> priority t \<and> priority t < PHI_SQUARED) ts)) \<and>
     phase3_impact r = mean_impact (map expected_impact (filter (\<lambda>t. priority t < PHI) ts)) \<and>
     next_actions r =
       (if ts = [] then fallback_actions
        else actions_for (title (hd ts)) (weakest_pattern st))"
  by (simp add: create_implementation_roadmap_def Let_def bind_result_def phase_impact_eq
      generate_next_actions_eq phase1_tasks_def phase2_tasks_def phase3_tasks_def
      phase1_impact_def phase2_impact_def phase3_impact_def)

lemma create_implementation_roadmap_timestamp:
  assumes "create_implementation_roadmap now1 st ts = Inr r"
  shows "create_implementation_roadmap now2 st ts = Inr (r\<lparr>analysis_timestamp := now2\<rparr>)"
  using assms
  by (auto simp add: create_implementation_roadmap_def Let_def bind_result_def phase_impact_eq
      generate_next_actions_eq)

lemma generate_optimization_plan_eq:
  assumes "run_generators (optimizer_init data) = Inr (st, tasks)"
  shows "generate_optimization_plan now (optimizer_init data) =
     create_implementation_roadmap now st (prioritize_tasks tasks)"
  by (simp add: generate_optimization_plan_def assms bind_result_def)

lemma run_generators_total:
  "\<exists>st tasks. analyze_current_state data = Inr st \<and>
     run_generators (optimizer_init data) = Inr (st, tasks)"
  using analyze_current_state_total[of data] run_generators_closed[of data] by blast


subsection \<open>The descending sort is stable, and the phases slice it\<close>

lemma py_sort_reverse_sorted: "sorted_wrt (\<lambda>a b. key b \<le> key a) (py_sort key True xs)"
proof -
  have "sorted (map key (sort_key key (rev xs)))" by (rule sorted_sort_key)
  then have "sorted_wrt (\<lambda>a b. key a \<le> key b) (sort_key key (rev xs))"
    by (simp add: sorted_wrt_map)
  then show ?thesis by (simp add: py_sort_def sorted_wrt_rev)
qed

lemma py_sort_mset: "mset (py_sort key r xs) = mset xs"
  by (simp add: py_sort_def)

lemma py_sort_stable:
  "filter (\<lambda>x. key x = k) (py_sort key r xs) = filter (\<lambda>x. key x = k) xs"
proof (cases r)
  case True
  have "filter (\<lambda>x. key x = k) (rev (sort_key key (rev xs))) =
        rev (filter (\<lambda>x. key x = k) (sort_key key (rev xs)))"
    by (simp add: rev_filter)
  also have "\<dots> = rev (filter (\<lambda>x. key x = k) (rev xs))"
    by (simp only: sort_key_stable)
  also have "\<dots> = filter (\<lambda>x. key x = k) xs"
    by (simp add: rev_filter)
  finally show ?thesis using True by (simp add: py_sort_def)
next
  case False
  then show ?thesis by (simp add: py_sort_def sort_key_stable)
qed

lemma descending_slices:
  fixes key :: "'a \<Rightarrow> real"
  assumes "sorted_wrt (\<lambda>a b. key b \<le> key a) ts" and "lo \<le> hi"
  shows "filter (\<lambda>t. key t \<ge> hi) ts @ filter (\<lambda>t. lo \<le> key t \<and> key t < hi) ts @
         filter (\<lambda>t. key t < lo) ts = ts"
  using assms(1)
proof (induction ts)
  case Nil
  then show ?case by simp
next
  case (Cons t ts)
  then have below: "\<forall>u\<in>set ts. key u \<le> key t" and IH:
    "filter (\<lambda>t. key t \<ge> hi) ts @ filter (\<lambda>t. lo \<le> key t \<and> key t < hi) ts @
     filter (\<lambda>t. key t < lo) ts = ts"
    by simp_all
  consider "hi \<le> key t" | "lo \<le> key t" "key t < hi" | "key t < lo" by linarith
  then show ?case
  proof cases
    case 1
    then show ?thesis using IH assms(2) by simp
  next
    case 2
    then have "filter (\<lambda>t. key t \<ge> hi) ts = []"
      using below by (auto simp: filter_empty_conv)
    then show ?thesis using 2 IH by simp
  next
    case 3
    then have "filter (\<lambda>t. key t \<ge> hi) ts = []"
      and "filter (\<lambda>t. lo \<le> key t \<and> key t < hi) ts = []"
      using below assms(2) by (auto simp: filter_empty_conv)
    then show ?thesis using 3 IH assms(2) by simp
  qed
qed

lemma three_way_partition:
  fixes key :: "'a \<Rightarrow> real"
  assumes "lo \<le> hi"
  shows "mset (filter (\<lambda>t. key t \<ge> hi) ts) + mset (filter (\<lambda>t. lo \<le> key t \<and> key t < hi) ts) +
         mset (filter (\<lambda>t. key t < lo) ts) = mset ts"
  using assms by (induction ts) auto

subsection \<open>Evaluation on concrete documents\<close>

lemma get_avg_scores_report_of: "get_avg_scores (report_of entries) = map_of entries"
  by (simp add: get_avg_scores_def report_of_def)

lemma analyze_report_mixed:
  "analyze_current_state report_mixed =
     Inr \<lparr>weakest_pattern = ''Fractal'', strongest_pattern = ''Spiral'',
          pattern_scores = [(''Circle'', 0.6), (''Triangle'', 0.2), (''Spiral'', 0.65),
                            (''Golden Ratio'', 0.4), (''Fractal'', 0)]\<rparr>"
  by (simp add: analyze_current_state_def report_mixed_def get_avg_scores_report_of
      build_pattern_scores_def dict_get_def py_min_def py_max_def dict_item_def bind_result_def)

lemma run_report_mixed:
  "run_generators (optimizer_init report_mixed) =
     Inr (\<lparr>weakest_pattern = ''Fractal'', strongest_pattern = ''Spiral'',
          pattern_scores = [(''Circle'', 0.6), (''Triangle'', 0.2), (''Spiral'', 0.65),
                            (''Golden Ratio'', 0.4), (''Fractal'', 0)]\<rparr>,
          [CIRCLE_001, CIRCLE_002, TRIANGLE_001 ''Fractal'', SPIRAL_001, GOLDEN_RATIO_001,
           GOLDEN_RATIO_002, FRACTAL_001])"
  by (simp add: run_generators_closed[OF analyze_report_mixed])
     (simp add: report_mixed_def get_avg_scores_report_of dict_get_def)

lemma sort_report_mixed:
  "prioritize_tasks [CIRCLE_001, CIRCLE_002, TRIANGLE_001 ''Fractal'', SPIRAL_001, GOLDEN_RATIO_001,
           GOLDEN_RATIO_002, FRACTAL_001] =
   [CIRCLE_001, GOLDEN_RATIO_001, CIRCLE_002, TRIANGLE_001 ''Fractal'', SPIRAL_001,
    GOLDEN_RATIO_002, FRACTAL_001]"
  by (simp add: prioritize_tasks_def py_sort_def task_priorities PHI_order)


lemma phase_tasks_mixed:
  "\<exists>r. generate_optimization_plan now (optimizer_init report_mixed) = Inr r \<and>
     phase1_tasks r = map task_to_dict
       [CIRCLE_001, GOLDEN_RATIO_001, CIRCLE_002, TRIANGLE_001 ''Fractal'', SPIRAL_001] \<and>
     phase2_tasks r = map task_to_dict [GOLDEN_RATIO_002, FRACTAL_001] \<and>
     phase3_tasks r = []"
proof -
  let ?st = "\<lparr>weakest_pattern = ''Fractal'', strongest_pattern = ''Spiral'',
          pattern_scores = [(''Circle'', 0.6), (''Triangle'', 0.2), (''Spiral'', 0.65),
                            (''Golden Ratio'', 0.4), (''Fractal'', 0)]\<rparr>"
  let ?ts = "[CIRCLE_001, GOLDEN_RATIO_001, CIRCLE_002, TRIANGLE_001 ''Fractal'', SPIRAL_001,
        GOLDEN_RATIO_002, FRACTAL_001]"
  have plan: "generate_optimization_plan now (optimizer_init report_mixed) =
      create_implementation_roadmap now ?st ?ts"
    by (simp add: generate_optimization_plan_eq[OF run_report_mixed] sort_report_mixed)
  show ?thesis
    using create_implementation_roadmap_props[of now ?st ?ts] unfolding plan
    by (auto simp add: task_priorities PHI_order)
qed


section \<open>The properties of the planner\<close>

lemma get_priority_name_task_to_dict:
  "d_priority_name (task_to_dict t) = get_priority_name (d_priority (task_to_dict t))"
  by (simp add: task_to_dict_def)

text \<open>
  C5. The priority classifier \<open>_get_priority_name\<close> is a total function of the weight: a
  weight of at least \<open>PHI_CUBED\<close> is named critical, one in \<open>[PHI_SQUARED, PHI_CUBED)\<close>
  high, one in \<open>[PHI, PHI_SQUARED)\<close> medium and one below \<open>PHI\<close> low; the four names
  differ, and the name serialised with every task of a roadmap is the classification of
  that task's weight.
\<close>

theorem priority_classifier_ladder:
  "(PHI_CUBED \<le> w1 \<longrightarrow> get_priority_name w1 = name_CRITICAL) \<and>
   (PHI_SQUARED \<le> w2 \<and> w2 < PHI_CUBED \<longrightarrow> get_priority_name w2 = name_HIGH) \<and>
   (PHI \<le> w3 \<and> w3 < PHI_SQUARED \<longrightarrow> get_priority_name w3 = name_MEDIUM) \<and>
   (w4 < PHI \<longrightarrow> get_priority_name w4 = name_LOW) \<and>
   distinct [name_CRITICAL, name_HIGH, name_MEDIUM, name_LOW] \<and>
   d_priority_name (task_to_dict t) = get_priority_name (priority t) \<and>
   (\<exists>r. generate_optimization_plan now (optimizer_init data) = Inr r \<and>
      (\<forall>d\<in>set (phase1_tasks r @ phase2_tasks r @ phase3_tasks r).
         d_priority_name d = get_priority_name (d_priority d)))"
proof -
  have ladder: "PHI < PHI_SQUARED" "PHI_SQUARED < PHI_CUBED"
    by (rule PHI_lt_SQUARED, rule SQUARED_lt_CUBED)
  have c: "PHI_CUBED \<le> w1 \<longrightarrow> get_priority_name w1 = name_CRITICAL"
    by (simp add: get_priority_name_def)
  have h: "PHI_SQUARED \<le> w2 \<and> w2 < PHI_CUBED \<longrightarrow> get_priority_name w2 = name_HIGH"
    by (simp add: get_priority_name_def)
  have m: "PHI \<le> w3 \<and> w3 < PHI_SQUARED \<longrightarrow> get_priority_name w3 = name_MEDIUM"
    using ladder by (simp add: get_priority_name_def)
  have l: "w4 < PHI \<longrightarrow> get_priority_name w4 = name_LOW"
    using ladder by (simp add: get_priority_name_def)
  have d: "distinct [name_CRITICAL, name_HIGH, name_MEDIUM, name_LOW]"
    by (simp add: name_CRITICAL_def name_HIGH_def name_MEDIUM_def name_LOW_def)
  have t: "d_priority_name (task_to_dict t) = get_priority_name (priority t)"
    by (simp add: task_to_dict_def)
  obtain st tasks where run: "run_generators (optimizer_init data) = Inr (st, tasks)"
    using run_generators_total[of data] by blast
  obtain r where r: "create_implementation_roadmap now st (prioritize_tasks tasks) = Inr r"
    and p1: "phase1_tasks r =
       map task_to_dict (filter (\<lambda>t. priority t \<ge> PHI_SQUARED) (prioritize_tasks tasks))"
    and p2: "phase2_tasks r = map task_to_dict
       (filter (\<lambda>t. PHI \<le> priority t \<and> priority t < PHI_SQUARED) (prioritize_tasks tasks))"
    and p3: "phase3_tasks r =
       map task_to_dict (filter (\<lambda>t. priority t < PHI) (prioritize_tasks tasks))"
    using create_implementation_roadmap_props[of now st "prioritize_tasks tasks"] by blast
  have plan: "generate_optimization_plan now (optimizer_init data) = Inr r"
    using r by (simp add: generate_optimization_plan_eq[OF run])
  have every: "\<forall>d\<in>set (phase1_tasks r @ phase2_tasks r @ phase3_tasks r).
         d_priority_name d = get_priority_name (d_priority d)"
    unfolding p1 p2 p3 using get_priority_name_task_to_dict by auto
  from c h m l d t plan every show ?thesis by blast
qed

theorem priority_classifier_ladder_witness:
  "get_priority_name PHI_CUBED = name_CRITICAL \<and>
   get_priority_name PHI_SQUARED = name_HIGH \<and>
   get_priority_name PHI = name_MEDIUM \<and>
   get_priority_name 0 = name_LOW \<and>
   (\<exists>r. generate_optimization_plan 0 (optimizer_init report_mixed) = Inr r \<and>
      phase1_tasks r \<noteq> [] \<and> phase2_tasks r \<noteq> [] \<and>
      (\<forall>d\<in>set (phase1_tasks r @ phase2_tasks r @ phase3_tasks r).
         d_priority_name d = get_priority_name (d_priority d)))"
proof -
  have pos: "0 < PHI" using PHI_gt_1 by linarith
  obtain r where r: "generate_optimization_plan 0 (optimizer_init report_mixed) = Inr r"
    and ex: "phase1_tasks r \<noteq> []" "phase2_tasks r \<noteq> []"
    using phase_tasks_mixed[of 0] by auto
  show ?thesis
    using priority_classifier_ladder[of PHI_CUBED PHI_SQUARED PHI 0 GOLDEN_RATIO_002 0 report_mixed]
      r ex pos
    by (simp add: PHI_order)
qed

lemma generated_ids_distinct:
  assumes "run_generators (optimizer_init data) = Inr (st, tasks)"
  shows "distinct (map id_task tasks)"
proof -
  obtain st' where a: "analyze_current_state data = Inr st'"
    using analyze_current_state_total[of data] by blast
  show ?thesis
    using assms unfolding run_generators_closed[OF a]
    by (auto simp: task_ids)
qed

lemma generated_dicts_distinct:
  assumes "run_generators (optimizer_init data) = Inr (st, tasks)"
  shows "distinct (map task_to_dict tasks)"
proof -
  have "map d_id (map task_to_dict tasks) = map id_task tasks"
    by (simp add: task_to_dict_def)
  then have "distinct (map d_id (map task_to_dict tasks))"
    using generated_ids_distinct[OF assms] by (simp only:)
  then show ?thesis using distinct_map[of d_id "map task_to_dict tasks"] by blast
qed

text \<open>The facts about one run that the properties below share.\<close>

lemma plan_facts:
  obtains st tasks r where
    "analyze_current_state data = Inr st"
    "run_generators (optimizer_init data) = Inr (st, tasks)"
    "generate_optimization_plan now (optimizer_init data) = Inr r"
    "analysis_timestamp r = now"
    "phase1_tasks r =
       map task_to_dict (filter (\<lambda>t. priority t \<ge> PHI_SQUARED) (prioritize_tasks tasks))"
    "phase2_tasks r = map task_to_dict
       (filter (\<lambda>t. PHI \<le> priority t \<and> priority t < PHI_SQUARED) (prioritize_tasks tasks))"
    "phase3_tasks r =
       map task_to_dict (filter (\<lambda>t. priority t < PHI) (prioritize_tasks tasks))"
    "phase1_impact r = mean_impact (map expected_impact
       (filter (\<lambda>t. priority t \<ge> PHI_SQUARED) (prioritize_tasks tasks)))"
    "phase2_impact r = mean_impact (map expected_impact
       (filter (\<lambda>t. PHI \<le> priority t \<and> priority t < PHI_SQUARED) (prioritize_tasks tasks)))"
    "phase3_impact r = mean_impact (map expected_impact
       (filter (\<lambda>t. priority t < PHI) (prioritize_tasks tasks)))"
    "next_actions r =
       (if prioritize_tasks tasks = [] then fallback_actions
        else actions_for (title (hd (prioritize_tasks tasks))) (weakest_pattern st))"
proof -
  obtain st tasks where a: "analyze_current_state data = Inr st"
    and run: "run_generators (optimizer_init data) = Inr (st, tasks)"
    using run_generators_total[of data] by blast
  obtain r where r: "create_implementation_roadmap now st (prioritize_tasks tasks) = Inr r \<and>
     analysis_timestamp r = now \<and>
     phase1_tasks r = map task_to_dict
       (filter (\<lambda>t. priority t \<ge> PHI_SQUARED) (prioritize_tasks tasks)) \<and>
     phase2_tasks r = map task_to_dict
       (filter (\<lambda>t. PHI \<le> priority t \<and> priority t < PHI_SQUARED) (prioritize_tasks tasks)) \<and>
     phase3_tasks r = map task_to_dict (filter (\<lambda>t. priority t < PHI) (prioritize_tasks tasks)) \<and>
     phase1_impact r = mean_impact (map expected_impact
       (filter (\<lambda>t. priority t \<ge> PHI_SQUARED) (prioritize_tasks tasks))) \<and>
     phase2_impact r = mean_impact (map expected_impact
       (filter (\<lambda>t. PHI \<le> priority t \<and> priority t < PHI_SQUARED) (prioritize_tasks tasks))) \<and>
     phase3_impact r = mean_impact (map expected_impact
       (filter (\<lambda>t. priority t < PHI) (prioritize_tasks tasks))) \<and>
     next_actions r =
       (if prioritize_tasks tasks = [] then fallback_actions
        else actions_for (title (hd (prioritize_tasks tasks))) (weakest_pattern st))"
    using create_implementation_roadmap_props[of now st "prioritize_tasks tasks"] by blast
  have "generate_optimization_plan now (optimizer_init data) = Inr r"
    using r by (simp add: generate_optimization_plan_eq[OF run])
  with a run r that show ?thesis by blast
qed

lemma phases_are_slices:
  "filter (\<lambda>t. priority t \<ge> PHI_SQUARED) (prioritize_tasks tasks) @
   filter (\<lambda>t. PHI \<le> priority t \<and> priority t < PHI_SQUARED) (prioritize_tasks tasks) @
   filter (\<lambda>t. priority t < PHI) (prioritize_tasks tasks) = prioritize_tasks tasks"
  unfolding prioritize_tasks_def
  by (rule descending_slices[OF py_sort_reverse_sorted]) (rule PHI_order(1))

text \<open>
  C3. For every analysis document the three phases of the roadmap partition the
  generated tasks: taken together the phases hold every generated task once (no
  omission, no duplicate), phase 1 holds tasks of weight at least \<open>PHI_SQUARED\<close>, phase 2
  tasks of weight in \<open>[PHI, PHI_SQUARED)\<close> and phase 3 tasks of weight below \<open>PHI\<close>.
\<close>

theorem phases_partition_generated_tasks:
  "\<exists>st tasks r.
     run_generators (optimizer_init data) = Inr (st, tasks) \<and>
     generate_optimization_plan now (optimizer_init data) = Inr r \<and>
     mset (phase1_tasks r @ phase2_tasks r @ phase3_tasks r) = mset (map task_to_dict tasks) \<and>
     distinct (phase1_tasks r @ phase2_tasks r @ phase3_tasks r) \<and>
     (\<forall>d\<in>set (phase1_tasks r). PHI_SQUARED \<le> d_priority d) \<and>
     (\<forall>d\<in>set (phase2_tasks r). PHI \<le> d_priority d \<and> d_priority d < PHI_SQUARED) \<and>
     (\<forall>d\<in>set (phase3_tasks r). d_priority d < PHI)"
proof -
  obtain st tasks r where run: "run_generators (optimizer_init data) = Inr (st, tasks)"
    and plan: "generate_optimization_plan now (optimizer_init data) = Inr r"
    and p1: "phase1_tasks r =
       map task_to_dict (filter (\<lambda>t. priority t \<ge> PHI_SQUARED) (prioritize_tasks tasks))"
    and p2: "phase2_tasks r = map task_to_dict
       (filter (\<lambda>t. PHI \<le> priority t \<and> priority t < PHI_SQUARED) (prioritize_tasks tasks))"
    and p3: "phase3_tasks r =
       map task_to_dict (filter (\<lambda>t. priority t < PHI) (prioritize_tasks tasks))"
    by (rule plan_facts[of data now])
  have cat: "phase1_tasks r @ phase2_tasks r @ phase3_tasks r =
      map task_to_dict (prioritize_tasks tasks)"
    unfolding p1 p2 p3 map_append[symmetric] by (simp only: phases_are_slices)
  have ms: "mset (map task_to_dict (prioritize_tasks tasks)) = mset (map task_to_dict tasks)"
    by (simp add: prioritize_tasks_def py_sort_mset)
  have di: "distinct (map task_to_dict (prioritize_tasks tasks))"
    using generated_dicts_distinct[OF run] mset_eq_imp_distinct_iff[OF ms] by blast
  have b1: "\<forall>d\<in>set (phase1_tasks r). PHI_SQUARED \<le> d_priority d"
    unfolding p1 by (auto simp: task_to_dict_def)
  have b2: "\<forall>d\<in>set (phase2_tasks r). PHI \<le> d_priority d \<and> d_priority d < PHI_SQUARED"
    unfolding p2 by (auto simp: task_to_dict_def)
  have b3: "\<forall>d\<in>set (phase3_tasks r). d_priority d < PHI"
    unfolding p3 by (auto simp: task_to_dict_def)
  from run plan cat ms di b1 b2 b3 show ?thesis by (metis (no_types, lifting))
qed

theorem phases_partition_generated_tasks_witness:
  "\<exists>r. generate_optimization_plan 0 (optimizer_init report_mixed) = Inr r \<and>
     phase1_tasks r = map task_to_dict
       [CIRCLE_001, GOLDEN_RATIO_001, CIRCLE_002, TRIANGLE_001 ''Fractal'', SPIRAL_001] \<and>
     phase2_tasks r = map task_to_dict [GOLDEN_RATIO_002, FRACTAL_001] \<and>
     phase3_tasks r = [] \<and>
     distinct (phase1_tasks r @ phase2_tasks r @ phase3_tasks r) \<and>
     PHI_SQUARED \<le> d_priority (task_to_dict CIRCLE_001) \<and>
     PHI \<le> d_priority (task_to_dict FRACTAL_001) \<and>
     d_priority (task_to_dict FRACTAL_001) < PHI_SQUARED"
proof -
  obtain r where r: "generate_optimization_plan 0 (optimizer_init report_mixed) = Inr r"
    and ph: "phase1_tasks r = map task_to_dict
       [CIRCLE_001, GOLDEN_RATIO_001, CIRCLE_002, TRIANGLE_001 ''Fractal'', SPIRAL_001]"
      "phase2_tasks r = map task_to_dict [GOLDEN_RATIO_002, FRACTAL_001]"
      "phase3_tasks r = []"
    using phase_tasks_mixed[of 0] by blast
  from phases_partition_generated_tasks[of report_mixed 0] r
  have "distinct (phase1_tasks r @ phase2_tasks r @ phase3_tasks r) \<and>
     (\<forall>d\<in>set (phase1_tasks r). PHI_SQUARED \<le> d_priority d) \<and>
     (\<forall>d\<in>set (phase2_tasks r). PHI \<le> d_priority d \<and> d_priority d < PHI_SQUARED)"
    by auto
  then show ?thesis using r ph by simp
qed


text \<open>
  C4. \<open>_prioritize_tasks\<close> sorts the tasks by descending weight with a stable sort: the
  result is a permutation in descending order in which the tasks of any one weight keep
  the order the generators gave them. The three phases of the roadmap, one after the
  other, are this sorted sequence, so each phase is a contiguous slice of it.
\<close>

theorem stable_descending_sort_and_slices:
  "sorted_wrt (\<lambda>a b. priority b \<le> priority a) (prioritize_tasks ts) \<and>
   mset (prioritize_tasks ts) = mset ts \<and>
   (\<forall>w. filter (\<lambda>t. priority t = w) (prioritize_tasks ts) = filter (\<lambda>t. priority t = w) ts) \<and>
   (\<exists>st tasks r.
      run_generators (optimizer_init data) = Inr (st, tasks) \<and>
      generate_optimization_plan now (optimizer_init data) = Inr r \<and>
      phase1_tasks r @ phase2_tasks r @ phase3_tasks r =
        map task_to_dict (prioritize_tasks tasks))"
proof -
  have s: "sorted_wrt (\<lambda>a b. priority b \<le> priority a) (prioritize_tasks ts)"
    unfolding prioritize_tasks_def by (rule py_sort_reverse_sorted)
  have m: "mset (prioritize_tasks ts) = mset ts"
    unfolding prioritize_tasks_def by (rule py_sort_mset)
  have st: "\<forall>w. filter (\<lambda>t. priority t = w) (prioritize_tasks ts) =
      filter (\<lambda>t. priority t = w) ts"
    unfolding prioritize_tasks_def by (simp add: py_sort_stable)
  obtain st tasks r where run: "run_generators (optimizer_init data) = Inr (st, tasks)"
    and plan: "generate_optimization_plan now (optimizer_init data) = Inr r"
    and p1: "phase1_tasks r =
       map task_to_dict (filter (\<lambda>t. priority t \<ge> PHI_SQUARED) (prioritize_tasks tasks))"
    and p2: "phase2_tasks r = map task_to_dict
       (filter (\<lambda>t. PHI \<le> priority t \<and> priority t < PHI_SQUARED) (prioritize_tasks tasks))"
    and p3: "phase3_tasks r =
       map task_to_dict (filter (\<lambda>t. priority t < PHI) (prioritize_tasks tasks))"
    by (rule plan_facts[of data now])
  have cat: "phase1_tasks r @ phase2_tasks r @ phase3_tasks r =
      map task_to_dict (prioritize_tasks tasks)"
    unfolding p1 p2 p3 map_append[symmetric] by (simp only: phases_are_slices)
  from s m st run plan cat show ?thesis by blast
qed

theorem stable_descending_sort_and_slices_witness:
  "prioritize_tasks [CIRCLE_001, CIRCLE_002, TRIANGLE_001 ''Fractal'', SPIRAL_001,
      GOLDEN_RATIO_001, GOLDEN_RATIO_002, FRACTAL_001] =
     [CIRCLE_001, GOLDEN_RATIO_001, CIRCLE_002, TRIANGLE_001 ''Fractal'', SPIRAL_001,
      GOLDEN_RATIO_002, FRACTAL_001] \<and>
   filter (\<lambda>t. priority t = PHI_SQUARED)
     (prioritize_tasks [CIRCLE_001, CIRCLE_002, TRIANGLE_001 ''Fractal'', SPIRAL_001,
        GOLDEN_RATIO_001, GOLDEN_RATIO_002, FRACTAL_001]) =
     [CIRCLE_002, TRIANGLE_001 ''Fractal'', SPIRAL_001] \<and>
   (\<exists>r. generate_optimization_plan 0 (optimizer_init report_mixed) = Inr r \<and>
      phase1_tasks r @ phase2_tasks r @ phase3_tasks r =
        map task_to_dict [CIRCLE_001, GOLDEN_RATIO_001, CIRCLE_002, TRIANGLE_001 ''Fractal'',
          SPIRAL_001, GOLDEN_RATIO_002, FRACTAL_001])"
proof -
  let ?ts = "[CIRCLE_001, CIRCLE_002, TRIANGLE_001 ''Fractal'', SPIRAL_001,
      GOLDEN_RATIO_001, GOLDEN_RATIO_002, FRACTAL_001]"
  from stable_descending_sort_and_slices[of ?ts report_mixed 0]
  have stable: "filter (\<lambda>t. priority t = PHI_SQUARED) (prioritize_tasks ?ts) =
      filter (\<lambda>t. priority t = PHI_SQUARED) ?ts"
    and ex: "\<exists>st tasks r.
      run_generators (optimizer_init report_mixed) = Inr (st, tasks) \<and>
      generate_optimization_plan 0 (optimizer_init report_mixed) = Inr r \<and>
      phase1_tasks r @ phase2_tasks r @ phase3_tasks r =
        map task_to_dict (prioritize_tasks tasks)"
    by blast+
  have f: "filter (\<lambda>t. priority t = PHI_SQUARED) ?ts =
      [CIRCLE_002, TRIANGLE_001 ''Fractal'', SPIRAL_001]"
    by (simp add: task_priorities PHI_order)
  from ex show ?thesis
    using stable f by (auto simp: run_report_mixed sort_report_mixed)
qed

text \<open>
  C6. In every roadmap the aggregate \<open>expected_impact\<close> of each phase is the arithmetic
  mean of the \<open>expected_impact\<close> of the tasks listed in that phase, and it is \<open>0\<close> for a
  phase without tasks; computing it never raises (no division by zero), for the roadmap
  and for any task list.
\<close>

theorem phase_impact_is_mean:
  "phase_impact ts = Inr (mean_impact (map expected_impact ts)) \<and>
   (\<exists>r. generate_optimization_plan now (optimizer_init data) = Inr r \<and>
      phase1_impact r = mean_impact (map d_expected_impact (phase1_tasks r)) \<and>
      phase2_impact r = mean_impact (map d_expected_impact (phase2_tasks r)) \<and>
      phase3_impact r = mean_impact (map d_expected_impact (phase3_tasks r)) \<and>
      (phase1_tasks r = [] \<longrightarrow> phase1_impact r = 0) \<and>
      (phase2_tasks r = [] \<longrightarrow> phase2_impact r = 0) \<and>
      (phase3_tasks r = [] \<longrightarrow> phase3_impact r = 0))"
proof -
  obtain st tasks r where
    plan: "generate_optimization_plan now (optimizer_init data) = Inr r"
    and p1: "phase1_tasks r =
       map task_to_dict (filter (\<lambda>t. priority t \<ge> PHI_SQUARED) (prioritize_tasks tasks))"
    and p2: "phase2_tasks r = map task_to_dict
       (filter (\<lambda>t. PHI \<le> priority t \<and> priority t < PHI_SQUARED) (prioritize_tasks tasks))"
    and p3: "phase3_tasks r =
       map task_to_dict (filter (\<lambda>t. priority t < PHI) (prioritize_tasks tasks))"
    and i1: "phase1_impact r = mean_impact (map expected_impact
       (filter (\<lambda>t. priority t \<ge> PHI_SQUARED) (prioritize_tasks tasks)))"
    and i2: "phase2_impact r = mean_impact (map expected_impact
       (filter (\<lambda>t. PHI \<le> priority t \<and> priority t < PHI_SQUARED) (prioritize_tasks tasks)))"
    and i3: "phase3_impact r = mean_impact (map expected_impact
       (filter (\<lambda>t. priority t < PHI) (prioritize_tasks tasks)))"
    by (rule plan_facts[of data now])
  have ser: "map d_expected_impact (map task_to_dict xs) = map expected_impact xs" for xs
    by (simp add: task_to_dict_def)
  have m1: "phase1_impact r = mean_impact (map d_expected_impact (phase1_tasks r))"
    unfolding p1 i1 ser by (rule refl)
  have m2: "phase2_impact r = mean_impact (map d_expected_impact (phase2_tasks r))"
    unfolding p2 i2 ser by (rule refl)
  have m3: "phase3_impact r = mean_impact (map d_expected_impact (phase3_tasks r))"
    unfolding p3 i3 ser by (rule refl)
  have e1: "phase1_tasks r = [] \<longrightarrow> phase1_impact r = 0"
    using m1 by (simp add: mean_impact_def)
  have e2: "phase2_tasks r = [] \<longrightarrow> phase2_impact r = 0"
    using m2 by (simp add: mean_impact_def)
  have e3: "phase3_tasks r = [] \<longrightarrow> phase3_impact r = 0"
    using m3 by (simp add: mean_impact_def)
  from phase_impact_eq[of ts] plan m1 m2 m3 e1 e2 e3 show ?thesis by blast
qed

theorem phase_impact_is_mean_witness:
  "phase_impact [] = Inr 0 \<and>
   (\<exists>r. generate_optimization_plan 0 (optimizer_init report_mixed) = Inr r \<and>
      phase1_impact r = 83 / 100 \<and> phase2_impact r = 3 / 4 \<and>
      phase3_tasks r = [] \<and> phase3_impact r = 0)"
proof -
  obtain r where r: "generate_optimization_plan 0 (optimizer_init report_mixed) = Inr r"
    and ph: "phase1_tasks r = map task_to_dict
       [CIRCLE_001, GOLDEN_RATIO_001, CIRCLE_002, TRIANGLE_001 ''Fractal'', SPIRAL_001]"
      "phase2_tasks r = map task_to_dict [GOLDEN_RATIO_002, FRACTAL_001]"
      "phase3_tasks r = []"
    using phase_tasks_mixed[of 0] by blast
  from phase_impact_is_mean[of "[]" 0 report_mixed] r
  have "phase_impact [] = Inr (mean_impact (map expected_impact [])) \<and>
      phase1_impact r = mean_impact (map d_expected_impact (phase1_tasks r)) \<and>
      phase2_impact r = mean_impact (map d_expected_impact (phase2_tasks r)) \<and>
      (phase3_tasks r = [] \<longrightarrow> phase3_impact r = 0)"
    by auto
  then show ?thesis
    using r ph by (simp add: mean_impact_def task_to_dict_def task_impacts)
qed


lemma golden_ratio_002_generated:
  assumes "run_generators (optimizer_init data) = Inr (st, tasks)"
  shows "GOLDEN_RATIO_002 \<in> set tasks"
proof -
  obtain st' where a: "analyze_current_state data = Inr st'"
    using analyze_current_state_total[of data] by blast
  show ?thesis
    using assms unfolding run_generators_closed[OF a] by auto
qed

text \<open>
  C10. For every analysis document the generated task list contains the unconditional
  task \<open>GOLDEN_RATIO_002\<close> of weight \<open>PHI\<close>. Hence the list is never empty, phase 2 of
  the roadmap holds at least that task, and \<open>_generate_next_actions\<close> never takes its
  branch for an empty task list: the next actions are the five messages headed by the
  title of the top task.
\<close>

theorem unconditional_task_always_generated:
  "\<exists>st tasks r.
     run_generators (optimizer_init data) = Inr (st, tasks) \<and>
     generate_optimization_plan now (optimizer_init data) = Inr r \<and>
     GOLDEN_RATIO_002 \<in> set tasks \<and>
     id_task GOLDEN_RATIO_002 = ''GOLDEN_RATIO_002'' \<and>
     priority GOLDEN_RATIO_002 = PHI \<and>
     tasks \<noteq> [] \<and>
     prioritize_tasks tasks \<noteq> [] \<and>
     task_to_dict GOLDEN_RATIO_002 \<in> set (phase2_tasks r) \<and>
     next_actions r =
       actions_for (title (hd (prioritize_tasks tasks))) (weakest_pattern st) \<and>
     length (next_actions r) = 5 \<and>
     next_actions r \<noteq> fallback_actions"
proof -
  obtain st tasks r where run: "run_generators (optimizer_init data) = Inr (st, tasks)"
    and plan: "generate_optimization_plan now (optimizer_init data) = Inr r"
    and p2: "phase2_tasks r = map task_to_dict
       (filter (\<lambda>t. PHI \<le> priority t \<and> priority t < PHI_SQUARED) (prioritize_tasks tasks))"
    and na: "next_actions r =
       (if prioritize_tasks tasks = [] then fallback_actions
        else actions_for (title (hd (prioritize_tasks tasks))) (weakest_pattern st))"
    by (rule plan_facts[of data now])
  have g: "GOLDEN_RATIO_002 \<in> set tasks" by (rule golden_ratio_002_generated[OF run])
  then have ne: "tasks \<noteq> []" by auto
  have "mset (prioritize_tasks tasks) = mset tasks"
    by (simp add: prioritize_tasks_def py_sort_mset)
  then have same: "set (prioritize_tasks tasks) = set tasks" by (rule mset_eq_setD)
  then have gs: "GOLDEN_RATIO_002 \<in> set (prioritize_tasks tasks)" using g by simp
  then have nes: "prioritize_tasks tasks \<noteq> []" by auto
  have in2: "task_to_dict GOLDEN_RATIO_002 \<in> set (phase2_tasks r)"
    unfolding p2 using gs by (simp add: task_priorities PHI_order)
  have na': "next_actions r =
      actions_for (title (hd (prioritize_tasks tasks))) (weakest_pattern st)"
    using na nes by simp
  have len: "length (next_actions r) = 5" unfolding na' by (simp add: actions_for_def)
  have nf: "next_actions r \<noteq> fallback_actions"
    using len by (auto simp: fallback_actions_def)
  from run plan g ne nes in2 na' len nf show ?thesis
    by (simp add: task_ids task_priorities)
qed

text \<open>
  C8. Two runs on the same analysis document, started at different times, both succeed
  and return roadmaps that differ at most in the field \<open>analysis_timestamp\<close>: the
  phases with their task lists and order, the scores, the success metrics and the next
  actions are identical.
\<close>

theorem runs_agree_up_to_timestamp:
  "\<exists>r1 r2.
     generate_optimization_plan now1 (optimizer_init data) = Inr r1 \<and>
     generate_optimization_plan now2 (optimizer_init data) = Inr r2 \<and>
     r2 = r1\<lparr>analysis_timestamp := now2\<rparr> \<and>
     analysis_timestamp r1 = now1 \<and>
     phases r2 = phases r1 \<and>
     current_sacred_geometry_score r2 = current_sacred_geometry_score r1 \<and>
     optimization_strategy r2 = optimization_strategy r1 \<and>
     success_metrics r2 = success_metrics r1 \<and>
     next_actions r2 = next_actions r1"
proof -
  obtain st tasks r1 where run: "run_generators (optimizer_init data) = Inr (st, tasks)"
    and plan1: "generate_optimization_plan now1 (optimizer_init data) = Inr r1"
    and ts: "analysis_timestamp r1 = now1"
    by (rule plan_facts[of data now1])
  have c1: "create_implementation_roadmap now1 st (prioritize_tasks tasks) = Inr r1"
    using plan1 by (simp add: generate_optimization_plan_eq[OF run])
  have "generate_optimization_plan now2 (optimizer_init data) =
      Inr (r1\<lparr>analysis_timestamp := now2\<rparr>)"
    using create_implementation_roadmap_timestamp[OF c1, of now2]
    by (simp add: generate_optimization_plan_eq[OF run])
  with plan1 ts show ?thesis by simp
qed


text \<open>The weakest and the strongest pattern, by position in \<open>pattern_scores\<close>.\<close>

lemma analyze_current_state_extremes:
  obtains st k m where
    "analyze_current_state data = Inr st"
    "pattern_scores st = build_pattern_scores (get_avg_scores data)"
    "k < length (pattern_scores st)" "m < length (pattern_scores st)"
    "weakest_pattern st = fst (pattern_scores st ! k)"
    "strongest_pattern st = fst (pattern_scores st ! m)"
    "\<forall>j<length (pattern_scores st). snd (pattern_scores st ! k) \<le> snd (pattern_scores st ! j)"
    "\<forall>j<k. snd (pattern_scores st ! k) < snd (pattern_scores st ! j)"
    "\<forall>j<length (pattern_scores st). snd (pattern_scores st ! j) \<le> snd (pattern_scores st ! m)"
    "\<forall>j<m. snd (pattern_scores st ! j) < snd (pattern_scores st ! m)"
proof -
  let ?d = "build_pattern_scores (get_avg_scores data)"
  have ne: "?d \<noteq> []" by (simp add: build_pattern_scores_def)
  have di: "distinct (map fst ?d)" by (simp add: build_pattern_scores_keys distinct_categories)
  obtain k where k: "k < length ?d" "py_min (map fst ?d) (dict_item ?d) = Inr (fst (?d ! k))"
    "\<forall>j<length ?d. snd (?d ! k) \<le> snd (?d ! j)" "\<forall>j<k. snd (?d ! k) < snd (?d ! j)"
    using py_min_dict[OF ne di] by blast
  obtain m where m: "m < length ?d" "py_max (map fst ?d) (dict_item ?d) = Inr (fst (?d ! m))"
    "\<forall>j<length ?d. snd (?d ! j) \<le> snd (?d ! m)" "\<forall>j<m. snd (?d ! j) < snd (?d ! m)"
    using py_max_dict[OF ne di] by blast
  let ?st = "\<lparr>weakest_pattern = fst (?d ! k), strongest_pattern = fst (?d ! m),
              pattern_scores = ?d\<rparr>"
  have "analyze_current_state data = Inr ?st"
    using k(2) m(2) by (simp add: analyze_current_state_def Let_def bind_result_def)
  then show ?thesis
    using k m that[of ?st k m] by simp
qed

lemma analyze_report_empty:
  "analyze_current_state report_empty =
     Inr \<lparr>weakest_pattern = ''Circle'', strongest_pattern = ''Circle'',
          pattern_scores = [(''Circle'', 0), (''Triangle'', 0), (''Spiral'', 0),
                            (''Golden Ratio'', 0), (''Fractal'', 0)]\<rparr>"
  by (simp add: analyze_current_state_def report_empty_def get_avg_scores_report_of
      build_pattern_scores_def dict_get_def py_min_def py_max_def dict_item_def bind_result_def)

lemma analyze_report_ties:
  "analyze_current_state report_ties =
     Inr \<lparr>weakest_pattern = ''Triangle'', strongest_pattern = ''Golden Ratio'',
          pattern_scores = [(''Circle'', 0.5), (''Triangle'', 0.3), (''Spiral'', 0.3),
                            (''Golden Ratio'', 0.9), (''Fractal'', 0.9)]\<rparr>"
  by (simp add: analyze_current_state_def report_ties_def get_avg_scores_report_of
      build_pattern_scores_def dict_get_def py_min_def py_max_def dict_item_def bind_result_def)

text \<open>
  C7, as the claim states it, fails: on a document without any score the analysis does
  not raise; every pattern gets the default score \<open>0\<close> and Circle is returned as the
  weakest and as the strongest pattern.
\<close>

theorem empty_report_is_analyzed:
  "get_avg_scores report_empty = Map.empty \<and>
   analyze_current_state report_empty =
     Inr \<lparr>weakest_pattern = ''Circle'', strongest_pattern = ''Circle'',
          pattern_scores = [(''Circle'', 0), (''Triangle'', 0), (''Spiral'', 0),
                            (''Golden Ratio'', 0), (''Fractal'', 0)]\<rparr>"
  by (simp add: analyze_report_empty) (simp add: report_empty_def get_avg_scores_report_of)

text \<open>
  C7, amended. \<open>_analyze_current_state\<close> never fails. It scores the five patterns in
  declaration order, each with the value that \<open>average_scores\<close> holds under the
  pattern's key and with \<open>0\<close> when the key is missing, and returns as weakest the
  first pattern of minimum score and as strongest the first pattern of maximum score; on
  a document without any score both are Circle.
\<close>

theorem analyzer_first_minimum_and_maximum:
  "\<exists>st k m.
     analyze_current_state data = Inr st \<and>
     pattern_scores st =
       [(''Circle'', dict_get (get_avg_scores data) ''circle_completeness'' 0),
        (''Triangle'', dict_get (get_avg_scores data) ''triangle_stability'' 0),
        (''Spiral'', dict_get (get_avg_scores data) ''spiral_growth'' 0),
        (''Golden Ratio'', dict_get (get_avg_scores data) ''golden_ratio_optimization'' 0),
        (''Fractal'', dict_get (get_avg_scores data) ''fractal_consistency'' 0)] \<and>
     map fst (pattern_scores st) = categories \<and>
     k < length categories \<and> m < length categories \<and>
     weakest_pattern st = categories ! k \<and>
     strongest_pattern st = categories ! m \<and>
     (\<forall>j<length categories. snd (pattern_scores st ! k) \<le> snd (pattern_scores st ! j)) \<and>
     (\<forall>j<k. snd (pattern_scores st ! k) < snd (pattern_scores st ! j)) \<and>
     (\<forall>j<length categories. snd (pattern_scores st ! j) \<le> snd (pattern_scores st ! m)) \<and>
     (\<forall>j<m. snd (pattern_scores st ! j) < snd (pattern_scores st ! m)) \<and>
     (get_avg_scores data = Map.empty \<longrightarrow>
        weakest_pattern st = ''Circle'' \<and> strongest_pattern st = ''Circle'' \<and>
        map snd (pattern_scores st) = [0, 0, 0, 0, 0])"
proof -
  obtain st k m where a: "analyze_current_state data = Inr st"
    and ps: "pattern_scores st = build_pattern_scores (get_avg_scores data)"
    and km: "k < length (pattern_scores st)" "m < length (pattern_scores st)"
    and w: "weakest_pattern st = fst (pattern_scores st ! k)"
    and s: "strongest_pattern st = fst (pattern_scores st ! m)"
    and mn: "\<forall>j<length (pattern_scores st). snd (pattern_scores st ! k) \<le> snd (pattern_scores st ! j)"
      "\<forall>j<k. snd (pattern_scores st ! k) < snd (pattern_scores st ! j)"
    and mx: "\<forall>j<length (pattern_scores st). snd (pattern_scores st ! j) \<le> snd (pattern_scores st ! m)"
      "\<forall>j<m. snd (pattern_scores st ! j) < snd (pattern_scores st ! m)"
    by (rule analyze_current_state_extremes[of data])
  have doc: "pattern_scores st =
       [(''Circle'', dict_get (get_avg_scores data) ''circle_completeness'' 0),
        (''Triangle'', dict_get (get_avg_scores data) ''triangle_stability'' 0),
        (''Spiral'', dict_get (get_avg_scores data) ''spiral_growth'' 0),
        (''Golden Ratio'', dict_get (get_avg_scores data) ''golden_ratio_optimization'' 0),
        (''Fractal'', dict_get (get_avg_scores data) ''fractal_consistency'' 0)]"
    by (simp add: ps build_pattern_scores_def)
  have keys: "map fst (pattern_scores st) = categories"
    by (simp add: ps build_pattern_scores_keys)
  then have len: "length (pattern_scores st) = length categories"
    by (metis length_map)
  have wk: "weakest_pattern st = categories ! k"
    using w km(1) keys by (metis nth_map)
  have sm: "strongest_pattern st = categories ! m"
    using s km(2) keys by (metis nth_map)
  have empty: "weakest_pattern st = ''Circle'' \<and> strongest_pattern st = ''Circle'' \<and>
        map snd (pattern_scores st) = [0, 0, 0, 0, 0]" if e: "get_avg_scores data = Map.empty"
  proof -
    have vals: "pattern_scores st = [(''Circle'', 0), (''Triangle'', 0), (''Spiral'', 0),
                            (''Golden Ratio'', 0), (''Fractal'', 0)]"
      by (simp add: ps e build_pattern_scores_def dict_get_def)
    have "k = 0"
    proof (rule ccontr)
      assume "k \<noteq> 0"
      then have "snd (pattern_scores st ! k) < snd (pattern_scores st ! 0)" using mn(2) by simp
      moreover have "snd (pattern_scores st ! k) = 0"
        using km(1) by (auto simp: vals less_Suc_eq numeral_eq_Suc)
      ultimately show False by (simp add: vals)
    qed
    moreover have "m = 0"
    proof (rule ccontr)
      assume "m \<noteq> 0"
      then have "snd (pattern_scores st ! 0) < snd (pattern_scores st ! m)" using mx(2) by simp
      moreover have "snd (pattern_scores st ! m) = 0"
        using km(2) by (auto simp: vals less_Suc_eq numeral_eq_Suc)
      ultimately show False by (simp add: vals)
    qed
    ultimately show ?thesis using wk sm by (simp add: vals categories_def)
  qed
  have emptyI: "get_avg_scores data = Map.empty \<longrightarrow>
        weakest_pattern st = ''Circle'' \<and> strongest_pattern st = ''Circle'' \<and>
        map snd (pattern_scores st) = [0, 0, 0, 0, 0]"
    using empty by blast
  note km' = km[unfolded len] and mn' = mn(1)[unfolded len] and mx' = mx(1)[unfolded len]
  show ?thesis
    by (rule exI[of _ st], rule exI[of _ k], rule exI[of _ m])
      (intro conjI; fact a doc keys km' wk sm mn' mn(2) mx' mx(2) emptyI)
qed

theorem analyzer_first_minimum_and_maximum_witness:
  "(\<exists>st. analyze_current_state report_ties = Inr st \<and>
      pattern_scores st =
        [(''Circle'', 0.5), (''Triangle'', 0.3), (''Spiral'', 0.3), (''Golden Ratio'', 0.9),
         (''Fractal'', 0.9)] \<and>
      weakest_pattern st = ''Triangle'' \<and> strongest_pattern st = ''Golden Ratio'') \<and>
   get_avg_scores report_empty = Map.empty \<and>
   (\<exists>st. analyze_current_state report_empty = Inr st \<and>
      pattern_scores st =
        [(''Circle'', 0), (''Triangle'', 0), (''Spiral'', 0), (''Golden Ratio'', 0),
         (''Fractal'', 0)] \<and>
      weakest_pattern st = ''Circle'' \<and> strongest_pattern st = ''Circle'')"
proof -
  have e: "get_avg_scores report_empty = Map.empty"
    by (simp add: report_empty_def get_avg_scores_report_of)
  have empty: "\<exists>st. analyze_current_state report_empty = Inr st \<and>
      pattern_scores st =
        [(''Circle'', 0), (''Triangle'', 0), (''Spiral'', 0), (''Golden Ratio'', 0),
         (''Fractal'', 0)] \<and>
      weakest_pattern st = ''Circle'' \<and> strongest_pattern st = ''Circle''"
    using analyzer_first_minimum_and_maximum[of report_empty] e
    by (elim exE conjE) (simp add: dict_get_def)
  have ties: "\<exists>st. analyze_current_state report_ties = Inr st \<and>
      pattern_scores st =
        [(''Circle'', 0.5), (''Triangle'', 0.3), (''Spiral'', 0.3), (''Golden Ratio'', 0.9),
         (''Fractal'', 0.9)] \<and>
      weakest_pattern st = ''Triangle'' \<and> strongest_pattern st = ''Golden Ratio''"
    using analyzer_first_minimum_and_maximum[of report_ties]
    by (simp add: analyze_report_ties)
  show ?thesis
    by (intro conjI; fact ties e empty)
qed


lemma run_generators_result:
  assumes run: "run_generators (optimizer_init data) = Inr (st, tasks)"
  shows "analyze_current_state data = Inr st"
    and "tasks =
       (if dict_get (get_avg_scores data) ''circle_completeness'' 0 < 0.7
        then [CIRCLE_001] else []) @
       (if dict_get (get_avg_scores data) ''circle_completeness'' 0 < 0.8
        then [CIRCLE_002] else []) @
       (if dict_get (get_avg_scores data) ''triangle_stability'' 0 < 0.7
        then [TRIANGLE_001 (weakest_pattern st)] else []) @
       (if dict_get (get_avg_scores data) ''spiral_growth'' 0 < 0.7
        then [SPIRAL_001] else []) @
       (if dict_get (get_avg_scores data) ''golden_ratio_optimization'' 0 < 0.5
        then [GOLDEN_RATIO_001] else []) @
       [GOLDEN_RATIO_002] @
       (if dict_get (get_avg_scores data) ''fractal_consistency'' 0 < 0.7
        then [FRACTAL_001] else [])"
proof -
  obtain st' where a: "analyze_current_state data = Inr st'"
    using analyze_current_state_total[of data] by blast
  note c = run_generators_closed[OF a]
  have e: "st' = st" using run c by (simp only: sum.inject prod.inject)
  show "analyze_current_state data = Inr st" using a e by (simp only:)
  show "tasks =
       (if dict_get (get_avg_scores data) ''circle_completeness'' 0 < 0.7
        then [CIRCLE_001] else []) @
       (if dict_get (get_avg_scores data) ''circle_completeness'' 0 < 0.8
        then [CIRCLE_002] else []) @
       (if dict_get (get_avg_scores data) ''triangle_stability'' 0 < 0.7
        then [TRIANGLE_001 (weakest_pattern st)] else []) @
       (if dict_get (get_avg_scores data) ''spiral_growth'' 0 < 0.7
        then [SPIRAL_001] else []) @
       (if dict_get (get_avg_scores data) ''golden_ratio_optimization'' 0 < 0.5
        then [GOLDEN_RATIO_001] else []) @
       [GOLDEN_RATIO_002] @
       (if dict_get (get_avg_scores data) ''fractal_consistency'' 0 < 0.7
        then [FRACTAL_001] else [])"
    using run c[unfolded e] by (simp only: sum.inject prod.inject)
qed

lemma score_keys_cases:
  assumes "(c, key) \<in> set score_keys"
  obtains
      "c = ''Circle''" "key = ''circle_completeness''"
    | "c = ''Triangle''" "key = ''triangle_stability''"
    | "c = ''Spiral''" "key = ''spiral_growth''"
    | "c = ''Golden Ratio''" "key = ''golden_ratio_optimization''"
    | "c = ''Fractal''" "key = ''fractal_consistency''"
proof -
  have "(c, key) = (''Circle'', ''circle_completeness'') \<or>
        (c, key) = (''Triangle'', ''triangle_stability'') \<or>
        (c, key) = (''Spiral'', ''spiral_growth'') \<or>
        (c, key) = (''Golden Ratio'', ''golden_ratio_optimization'') \<or>
        (c, key) = (''Fractal'', ''fractal_consistency'')"
    using assms unfolding score_keys_def by (simp only: list.set insert_iff empty_iff simp_thms)
  then show thesis using that by (elim disjE) (simp_all only: prod.inject)
qed


lemma zero_score_is_weakest:
  assumes a: "analyze_current_state data = Inr st"
    and c: "c \<in> set categories"
    and z: "dict_item (pattern_scores st) c = Inr 0"
    and pos: "\<forall>c'\<in>set categories. c' \<noteq> c \<longrightarrow>
               (\<exists>v. dict_item (pattern_scores st) c' = Inr v \<and> 0 < v)"
  shows "weakest_pattern st = c"
proof -
  obtain st' k m where a': "analyze_current_state data = Inr st'"
    and ps: "pattern_scores st' = build_pattern_scores (get_avg_scores data)"
    and k: "k < length (pattern_scores st')"
    and w: "weakest_pattern st' = fst (pattern_scores st' ! k)"
    and mn: "\<forall>j<length (pattern_scores st'). snd (pattern_scores st' ! k) \<le> snd (pattern_scores st' ! j)"
    by (rule analyze_current_state_extremes[of data])
  have st: "st' = st" using a a' by simp
  let ?d = "pattern_scores st"
  have keys: "map fst ?d = categories"
    using ps st by (simp add: build_pattern_scores_keys)
  have di: "distinct (map fst ?d)" by (simp add: keys distinct_categories)
  have "c \<in> set (map fst ?d)" using c keys by simp
  then obtain i where i: "i < length ?d" "fst (?d ! i) = c"
    by (auto simp: in_set_conv_nth)
  have zi: "snd (?d ! i) = 0"
    using dict_item_nth[OF di i(1)] z i(2) by simp
  have le: "snd (?d ! k) \<le> 0" using mn i(1) zi st by auto
  have "fst (?d ! k) = c"
  proof (rule ccontr)
    assume ne: "fst (?d ! k) \<noteq> c"
    have "fst (?d ! k) \<in> set categories"
      using k st keys by (metis length_map nth_map nth_mem)
    then obtain v where "dict_item ?d (fst (?d ! k)) = Inr v" "0 < v"
      using pos ne by blast
    then have "0 < snd (?d ! k)"
      using dict_item_nth[OF di] k st by simp
    then show False using le by simp
  qed
  then show ?thesis using w st by simp
qed

lemma gated_tasks_of_missing_score:
  assumes run: "run_generators (optimizer_init data) = Inr (st, tasks)"
    and key: "(c, key) \<in> set score_keys"
    and missing: "get_avg_scores data key = None"
  shows "set (gated_task_ids c) \<subseteq> id_task ` set tasks"
proof -
  note t = run_generators_result(2)[OF run]
  from key show ?thesis
  proof (cases rule: score_keys_cases)
    case 1
    then have "dict_get (get_avg_scores data) ''circle_completeness'' 0 = (0::real)"
      using missing by (simp add: dict_get_def)
    then show ?thesis using 1(1) by (simp add: t gated_task_ids_def task_ids)
  next
    case 2
    then have "dict_get (get_avg_scores data) ''triangle_stability'' 0 = (0::real)"
      using missing by (simp add: dict_get_def)
    then show ?thesis using 2(1) by (simp add: t gated_task_ids_def task_ids)
  next
    case 3
    then have "dict_get (get_avg_scores data) ''spiral_growth'' 0 = (0::real)"
      using missing by (simp add: dict_get_def)
    then show ?thesis using 3(1) by (simp add: t gated_task_ids_def task_ids)
  next
    case 4
    then have "dict_get (get_avg_scores data) ''golden_ratio_optimization'' 0 = (0::real)"
      using missing by (simp add: dict_get_def)
    then show ?thesis using 4(1) by (simp add: t gated_task_ids_def task_ids)
  next
    case 5
    then have "dict_get (get_avg_scores data) ''fractal_consistency'' 0 = (0::real)"
      using missing by (simp add: dict_get_def)
    then show ?thesis using 5(1) by (simp add: t gated_task_ids_def task_ids)
  qed
qed

lemma missing_score_is_zero:
  assumes a: "analyze_current_state data = Inr st"
    and key: "(c, key) \<in> set score_keys"
    and missing: "get_avg_scores data key = None"
  shows "dict_item (pattern_scores st) c = Inr 0"
proof -
  have ps: "pattern_scores st = build_pattern_scores (get_avg_scores data)"
    using a analyze_current_state_total[of data] by auto
  from key show ?thesis
  proof (cases rule: score_keys_cases)
    case 1
    then show ?thesis using missing
      by (simp add: ps build_pattern_scores_def dict_item_def dict_get_def)
  next
    case 2
    then show ?thesis using missing
      by (simp add: ps build_pattern_scores_def dict_item_def dict_get_def)
  next
    case 3
    then show ?thesis using missing
      by (simp add: ps build_pattern_scores_def dict_item_def dict_get_def)
  next
    case 4
    then show ?thesis using missing
      by (simp add: ps build_pattern_scores_def dict_item_def dict_get_def)
  next
    case 5
    then show ?thesis using missing
      by (simp add: ps build_pattern_scores_def dict_item_def dict_get_def)
  qed
qed

text \<open>
  C9. When the key that feeds one of the five categories is absent from
  \<open>average_scores\<close>, the run still succeeds and the category is scored \<open>0\<close>: every task
  that the category creates under a score threshold is generated, and the category is
  the weakest one whenever all other categories score above \<open>0\<close>.
\<close>

theorem missing_category_scores_zero:
  assumes "(c, key) \<in> set score_keys" and "get_avg_scores data key = None"
  shows "\<exists>st tasks.
     run_generators (optimizer_init data) = Inr (st, tasks) \<and>
     dict_item (pattern_scores st) c = Inr 0 \<and>
     set (gated_task_ids c) \<subseteq> id_task ` set tasks \<and>
     ((\<forall>c'\<in>set categories. c' \<noteq> c \<longrightarrow>
         (\<exists>v. dict_item (pattern_scores st) c' = Inr v \<and> 0 < v)) \<longrightarrow>
      weakest_pattern st = c)"
proof -
  obtain st tasks where a: "analyze_current_state data = Inr st"
    and run: "run_generators (optimizer_init data) = Inr (st, tasks)"
    using run_generators_total[of data] by blast
  have z: "dict_item (pattern_scores st) c = Inr 0"
    by (rule missing_score_is_zero[OF a assms])
  have g: "set (gated_task_ids c) \<subseteq> id_task ` set tasks"
    by (rule gated_tasks_of_missing_score[OF run assms])
  have c: "c \<in> set categories"
    using assms(1) by (cases rule: score_keys_cases) (simp_all add: categories_def)
  have w: "(\<forall>c'\<in>set categories. c' \<noteq> c \<longrightarrow>
         (\<exists>v. dict_item (pattern_scores st) c' = Inr v \<and> 0 < v)) \<longrightarrow>
      weakest_pattern st = c"
    using zero_score_is_weakest[OF a c z] by blast
  from run z g w show ?thesis by blast
qed

theorem missing_category_scores_zero_witness:
  "(''Fractal'', ''fractal_consistency'') \<in> set score_keys \<and>
   get_avg_scores report_mixed ''fractal_consistency'' = None \<and>
   (\<exists>st tasks.
      run_generators (optimizer_init report_mixed) = Inr (st, tasks) \<and>
      dict_item (pattern_scores st) ''Fractal'' = Inr 0 \<and>
      ''FRACTAL_001'' \<in> id_task ` set tasks \<and>
      weakest_pattern st = ''Fractal'')"
proof -
  have k: "(''Fractal'', ''fractal_consistency'') \<in> set score_keys"
    by (simp add: score_keys_def)
  have n: "get_avg_scores report_mixed ''fractal_consistency'' = None"
    by (simp add: report_mixed_def get_avg_scores_report_of)
  from missing_category_scores_zero[OF k n]
  have "\<exists>st tasks.
      run_generators (optimizer_init report_mixed) = Inr (st, tasks) \<and>
      dict_item (pattern_scores st) ''Fractal'' = Inr 0 \<and>
      ''FRACTAL_001'' \<in> id_task ` set tasks \<and>
      weakest_pattern st = ''Fractal''"
    by (simp add: run_report_mixed gated_task_ids_def)
  with k n show ?thesis by blast
qed


lemma analyze_report_spiral_weakest:
  "analyze_current_state report_spiral_weakest =
     Inr \<lparr>weakest_pattern = ''Spiral'', strongest_pattern = ''Circle'',
          pattern_scores = [(''Circle'', 0.9), (''Triangle'', 0.9), (''Spiral'', 0.3),
                            (''Golden Ratio'', 0.9), (''Fractal'', 0.9)]\<rparr>"
  by (simp add: analyze_current_state_def report_spiral_weakest_def get_avg_scores_report_of
      build_pattern_scores_def dict_get_def py_min_def py_max_def dict_item_def bind_result_def)

lemma run_report_spiral_weakest:
  "run_generators (optimizer_init report_spiral_weakest) =
     Inr (\<lparr>weakest_pattern = ''Spiral'', strongest_pattern = ''Circle'',
          pattern_scores = [(''Circle'', 0.9), (''Triangle'', 0.9), (''Spiral'', 0.3),
                            (''Golden Ratio'', 0.9), (''Fractal'', 0.9)]\<rparr>,
          [SPIRAL_001, GOLDEN_RATIO_002])"
  by (simp add: run_generators_closed[OF analyze_report_spiral_weakest])
     (simp add: report_spiral_weakest_def get_avg_scores_report_of dict_get_def)

lemma run_report_ties:
  "run_generators (optimizer_init report_ties) =
     Inr (\<lparr>weakest_pattern = ''Triangle'', strongest_pattern = ''Golden Ratio'',
          pattern_scores = [(''Circle'', 0.5), (''Triangle'', 0.3), (''Spiral'', 0.3),
                            (''Golden Ratio'', 0.9), (''Fractal'', 0.9)]\<rparr>,
          [CIRCLE_001, CIRCLE_002, TRIANGLE_001 ''Triangle'', SPIRAL_001, GOLDEN_RATIO_002])"
  by (simp add: run_generators_closed[OF analyze_report_ties])
     (simp add: report_ties_def get_avg_scores_report_of dict_get_def)

text \<open>
  C1, as the claim states it, fails: when Spiral is the weakest category and scores
  below \<open>0.7\<close>, its primary task \<open>SPIRAL_001\<close> weighs \<open>PHI_SQUARED\<close>, not \<open>PHI_CUBED\<close>.
\<close>

theorem spiral_primary_task_is_not_cubed:
  "\<not> spec_primary_rule_holds report_spiral_weakest"
  by (simp add: spec_primary_rule_holds_def run_report_spiral_weakest spec_primary_rule_def
      tasks_with_id_def primary_task_id_def task_ids task_priorities PHI_order)

lemma tasks_with_id_generated:
  assumes "run_generators (optimizer_init data) = Inr (st, tasks)"
  shows
    "tasks_with_id ''CIRCLE_001'' tasks =
       (if dict_get (get_avg_scores data) ''circle_completeness'' 0 < 0.7
        then [CIRCLE_001] else [])"
    "tasks_with_id ''TRIANGLE_001'' tasks =
       (if dict_get (get_avg_scores data) ''triangle_stability'' 0 < 0.7
        then [TRIANGLE_001 (weakest_pattern st)] else [])"
    "tasks_with_id ''SPIRAL_001'' tasks =
       (if dict_get (get_avg_scores data) ''spiral_growth'' 0 < 0.7
        then [SPIRAL_001] else [])"
    "tasks_with_id ''GOLDEN_RATIO_001'' tasks =
       (if dict_get (get_avg_scores data) ''golden_ratio_optimization'' 0 < 0.5
        then [GOLDEN_RATIO_001] else [])"
    "tasks_with_id ''FRACTAL_001'' tasks =
       (if dict_get (get_avg_scores data) ''fractal_consistency'' 0 < 0.7
        then [FRACTAL_001] else [])"
  unfolding run_generators_result(2)[OF assms] tasks_with_id_def
  by (simp_all add: task_ids)


text \<open>
  C1, amended. Each category has its own primary rule. The primary task exists exactly
  when the score is below \<open>0.7\<close> for Circle, Triangle, Spiral and Fractal, and below
  \<open>0.5\<close> for Golden Ratio. Its weight is \<open>PHI_CUBED\<close> for Circle and for Golden Ratio;
  for Triangle it is \<open>PHI_CUBED\<close> when Triangle is the weakest category and
  \<open>PHI_SQUARED\<close> otherwise; it is \<open>PHI_SQUARED\<close> for Spiral and \<open>PHI\<close> for Fractal. No
  category with a score of at least \<open>0.7\<close> gets a primary task.
\<close>

theorem primary_task_per_category:
  "\<exists>st tasks cs ts ss gs fs.
     run_generators (optimizer_init data) = Inr (st, tasks) \<and>
     pattern_scores st =
       [(''Circle'', cs), (''Triangle'', ts), (''Spiral'', ss), (''Golden Ratio'', gs),
        (''Fractal'', fs)] \<and>
     map (\<lambda>t. (pattern t, priority t)) (tasks_with_id ''CIRCLE_001'' tasks) =
       (if cs < 0.7 then [(''Circle'', PHI_CUBED)] else []) \<and>
     map (\<lambda>t. (pattern t, priority t)) (tasks_with_id ''TRIANGLE_001'' tasks) =
       (if ts < 0.7
        then [(''Triangle'',
               if weakest_pattern st = ''Triangle'' then PHI_CUBED else PHI_SQUARED)]
        else []) \<and>
     map (\<lambda>t. (pattern t, priority t)) (tasks_with_id ''SPIRAL_001'' tasks) =
       (if ss < 0.7 then [(''Spiral'', PHI_SQUARED)] else []) \<and>
     map (\<lambda>t. (pattern t, priority t)) (tasks_with_id ''GOLDEN_RATIO_001'' tasks) =
       (if gs < 0.5 then [(''Golden Ratio'', PHI_CUBED)] else []) \<and>
     map (\<lambda>t. (pattern t, priority t)) (tasks_with_id ''FRACTAL_001'' tasks) =
       (if fs < 0.7 then [(''Fractal'', PHI)] else []) \<and>
     (\<forall>(c, v)\<in>set (pattern_scores st).
        0.7 \<le> v \<longrightarrow> tasks_with_id (primary_task_id c) tasks = [])"
proof -
  obtain st tasks where run: "run_generators (optimizer_init data) = Inr (st, tasks)"
    using run_generators_total[of data] by blast
  have a: "analyze_current_state data = Inr st" by (rule run_generators_result(1)[OF run])
  let ?avg = "get_avg_scores data"
  let ?cs = "dict_get ?avg ''circle_completeness'' 0"
  let ?ts = "dict_get ?avg ''triangle_stability'' 0"
  let ?ss = "dict_get ?avg ''spiral_growth'' 0"
  let ?gs = "dict_get ?avg ''golden_ratio_optimization'' 0"
  let ?fs = "dict_get ?avg ''fractal_consistency'' 0"
  have ps: "pattern_scores st =
       [(''Circle'', ?cs), (''Triangle'', ?ts), (''Spiral'', ?ss), (''Golden Ratio'', ?gs),
        (''Fractal'', ?fs)]"
    using a analyze_current_state_total[of data] by (auto simp: build_pattern_scores_def)
  note ids = tasks_with_id_generated[OF run]
  have c: "map (\<lambda>t. (pattern t, priority t)) (tasks_with_id ''CIRCLE_001'' tasks) =
       (if ?cs < 0.7 then [(''Circle'', PHI_CUBED)] else [])"
    by (simp add: ids task_patterns task_priorities)
  have t: "map (\<lambda>t. (pattern t, priority t)) (tasks_with_id ''TRIANGLE_001'' tasks) =
       (if ?ts < 0.7
        then [(''Triangle'',
               if weakest_pattern st = ''Triangle'' then PHI_CUBED else PHI_SQUARED)]
        else [])"
    by (simp add: ids task_patterns task_priorities)
  have s: "map (\<lambda>t. (pattern t, priority t)) (tasks_with_id ''SPIRAL_001'' tasks) =
       (if ?ss < 0.7 then [(''Spiral'', PHI_SQUARED)] else [])"
    by (simp add: ids task_patterns task_priorities)
  have g: "map (\<lambda>t. (pattern t, priority t)) (tasks_with_id ''GOLDEN_RATIO_001'' tasks) =
       (if ?gs < 0.5 then [(''Golden Ratio'', PHI_CUBED)] else [])"
    by (simp add: ids task_patterns task_priorities)
  have f: "map (\<lambda>t. (pattern t, priority t)) (tasks_with_id ''FRACTAL_001'' tasks) =
       (if ?fs < 0.7 then [(''Fractal'', PHI)] else [])"
    by (simp add: ids task_patterns task_priorities)
  have none: "\<forall>(c, v)\<in>set (pattern_scores st).
        0.7 \<le> v \<longrightarrow> tasks_with_id (primary_task_id c) tasks = []"
    unfolding ps by (simp add: primary_task_id_def ids)
  show ?thesis
    by (rule exI[of _ st], rule exI[of _ tasks], rule exI[of _ ?cs], rule exI[of _ ?ts],
        rule exI[of _ ?ss], rule exI[of _ ?gs], rule exI[of _ ?fs])
      (intro conjI; fact run ps c t s g f none)
qed

theorem primary_task_per_category_witness:
  "\<exists>st tasks.
     run_generators (optimizer_init report_ties) = Inr (st, tasks) \<and>
     pattern_scores st =
       [(''Circle'', 0.5), (''Triangle'', 0.3), (''Spiral'', 0.3), (''Golden Ratio'', 0.9),
        (''Fractal'', 0.9)] \<and>
     weakest_pattern st = ''Triangle'' \<and>
     map (\<lambda>t. (pattern t, priority t)) (tasks_with_id ''CIRCLE_001'' tasks) =
       [(''Circle'', PHI_CUBED)] \<and>
     map (\<lambda>t. (pattern t, priority t)) (tasks_with_id ''TRIANGLE_001'' tasks) =
       [(''Triangle'', PHI_CUBED)] \<and>
     map (\<lambda>t. (pattern t, priority t)) (tasks_with_id ''SPIRAL_001'' tasks) =
       [(''Spiral'', PHI_SQUARED)] \<and>
     tasks_with_id (primary_task_id ''Golden Ratio'') tasks = [] \<and>
     tasks_with_id (primary_task_id ''Fractal'') tasks = []"
proof -
  let ?st = "\<lparr>weakest_pattern = ''Triangle'', strongest_pattern = ''Golden Ratio'',
          pattern_scores = [(''Circle'', 0.5), (''Triangle'', 0.3), (''Spiral'', 0.3),
                            (''Golden Ratio'', 0.9), (''Fractal'', 0.9)]\<rparr>"
  let ?tasks = "[CIRCLE_001, CIRCLE_002, TRIANGLE_001 ''Triangle'', SPIRAL_001,
                 GOLDEN_RATIO_002]"
  from primary_task_per_category[of report_ties]
  obtain cs ts ss gs fs where
    sc: "pattern_scores ?st =
       [(''Circle'', cs), (''Triangle'', ts), (''Spiral'', ss), (''Golden Ratio'', gs),
        (''Fractal'', fs)]"
    and c: "map (\<lambda>t. (pattern t, priority t)) (tasks_with_id ''CIRCLE_001'' ?tasks) =
       (if cs < 0.7 then [(''Circle'', PHI_CUBED)] else [])"
    and t: "map (\<lambda>t. (pattern t, priority t)) (tasks_with_id ''TRIANGLE_001'' ?tasks) =
       (if ts < 0.7
        then [(''Triangle'',
               if weakest_pattern ?st = ''Triangle'' then PHI_CUBED else PHI_SQUARED)]
        else [])"
    and s: "map (\<lambda>t. (pattern t, priority t)) (tasks_with_id ''SPIRAL_001'' ?tasks) =
       (if ss < 0.7 then [(''Spiral'', PHI_SQUARED)] else [])"
    and none: "\<forall>(c, v)\<in>set (pattern_scores ?st).
        0.7 \<le> v \<longrightarrow> tasks_with_id (primary_task_id c) ?tasks = []"
    unfolding run_report_ties by blast
  have vals: "cs = 0.5" "ts = 0.3" "ss = 0.3" using sc by simp_all
  have g: "tasks_with_id (primary_task_id ''Golden Ratio'') ?tasks = []"
    and f: "tasks_with_id (primary_task_id ''Fractal'') ?tasks = []"
    using none by simp_all
  show ?thesis
    using c t s g f unfolding vals
    by (intro exI[of _ ?st] exI[of _ ?tasks]) (simp add: run_report_ties)
qed


lemma all_scores_at_least_iff:
  "all_scores_at_least x data \<longleftrightarrow>
     x \<le> dict_get (get_avg_scores data) ''circle_completeness'' 0 \<and>
     x \<le> dict_get (get_avg_scores data) ''triangle_stability'' 0 \<and>
     x \<le> dict_get (get_avg_scores data) ''spiral_growth'' 0 \<and>
     x \<le> dict_get (get_avg_scores data) ''golden_ratio_optimization'' 0 \<and>
     x \<le> dict_get (get_avg_scores data) ''fractal_consistency'' 0"
  by (simp add: all_scores_at_least_def categories_def score_of_simps)

lemma all_scores_report_all_high: "all_scores_at_least 0.8 report_all_high"
  by (simp add: all_scores_at_least_iff report_all_high_def get_avg_scores_report_of
      dict_get_def)

lemma prioritize_single: "prioritize_tasks [t] = [t]"
  by (simp add: prioritize_tasks_def py_sort_def)

lemma only_unconditional_task:
  assumes "all_scores_at_least 0.8 data"
    and "run_generators (optimizer_init data) = Inr (st, tasks)"
  shows "tasks = [GOLDEN_RATIO_002]"
proof -
  have "\<not> dict_get (get_avg_scores data) ''circle_completeness'' 0 < 0.7"
    "\<not> dict_get (get_avg_scores data) ''circle_completeness'' 0 < 0.8"
    "\<not> dict_get (get_avg_scores data) ''triangle_stability'' 0 < 0.7"
    "\<not> dict_get (get_avg_scores data) ''spiral_growth'' 0 < 0.7"
    "\<not> dict_get (get_avg_scores data) ''golden_ratio_optimization'' 0 < 0.5"
    "\<not> dict_get (get_avg_scores data) ''fractal_consistency'' 0 < 0.7"
    using assms(1) unfolding all_scores_at_least_iff by linarith+
  then show ?thesis
    unfolding run_generators_result(2)[OF assms(2)] by (simp only: if_False append_Nil append_Nil2)
qed

text \<open>
  C2, as the claim states it, fails: with every score at \<open>0.9\<close> the generators still
  create the unconditional task, so the task list is not empty and the outcome of
  scenario B does not occur.
\<close>

theorem all_high_report_still_has_a_task:
  "all_scores_at_least 0.8 report_all_high \<and>
   \<not> spec_scenario_B_outcome 0 report_all_high"
proof -
  obtain st tasks where run: "run_generators (optimizer_init report_all_high) = Inr (st, tasks)"
    using run_generators_total[of report_all_high] by blast
  have "tasks = [GOLDEN_RATIO_002]"
    by (rule only_unconditional_task[OF all_scores_report_all_high run])
  then have "\<not> spec_scenario_B_outcome 0 report_all_high"
    using run by (simp add: spec_scenario_B_outcome_def)
  then show ?thesis using all_scores_report_all_high by simp
qed

text \<open>
  C2, amended. When every category scores at least \<open>0.8\<close>, the generators create exactly
  one task, the unconditional \<open>GOLDEN_RATIO_002\<close> of weight \<open>PHI\<close>. Phase 1 and phase 3
  of the roadmap are empty with aggregate impact \<open>0\<close>, phase 2 holds exactly that task
  with aggregate impact \<open>0.8\<close>, and the next actions are the five messages headed by the
  title of that task.
\<close>

theorem all_high_scores_leave_one_task:
  assumes "all_scores_at_least 0.8 data"
  shows "\<exists>st r.
     run_generators (optimizer_init data) = Inr (st, [GOLDEN_RATIO_002]) \<and>
     generate_optimization_plan now (optimizer_init data) = Inr r \<and>
     priority GOLDEN_RATIO_002 = PHI \<and>
     phase1_tasks r = [] \<and> phase1_impact r = 0 \<and>
     phase2_tasks r = [task_to_dict GOLDEN_RATIO_002] \<and> phase2_impact r = 0.8 \<and>
     phase3_tasks r = [] \<and> phase3_impact r = 0 \<and>
     next_actions r = actions_for (title GOLDEN_RATIO_002) (weakest_pattern st) \<and>
     title GOLDEN_RATIO_002 = ''Sacred Geometry Performance Optimization'' \<and>
     length (next_actions r) = 5"
proof -
  obtain st tasks r where run: "run_generators (optimizer_init data) = Inr (st, tasks)"
    and plan: "generate_optimization_plan now (optimizer_init data) = Inr r"
    and p1: "phase1_tasks r =
       map task_to_dict (filter (\<lambda>t. priority t \<ge> PHI_SQUARED) (prioritize_tasks tasks))"
    and p2: "phase2_tasks r = map task_to_dict
       (filter (\<lambda>t. PHI \<le> priority t \<and> priority t < PHI_SQUARED) (prioritize_tasks tasks))"
    and p3: "phase3_tasks r =
       map task_to_dict (filter (\<lambda>t. priority t < PHI) (prioritize_tasks tasks))"
    and i1: "phase1_impact r = mean_impact (map expected_impact
       (filter (\<lambda>t. priority t \<ge> PHI_SQUARED) (prioritize_tasks tasks)))"
    and i2: "phase2_impact r = mean_impact (map expected_impact
       (filter (\<lambda>t. PHI \<le> priority t \<and> priority t < PHI_SQUARED) (prioritize_tasks tasks)))"
    and i3: "phase3_impact r = mean_impact (map expected_impact
       (filter (\<lambda>t. priority t < PHI) (prioritize_tasks tasks)))"
    and na: "next_actions r =
       (if prioritize_tasks tasks = [] then fallback_actions
        else actions_for (title (hd (prioritize_tasks tasks))) (weakest_pattern st))"
    by (rule plan_facts[of data now])
  have tasks: "tasks = [GOLDEN_RATIO_002]"
    by (rule only_unconditional_task[OF assms run])
  have sorted: "prioritize_tasks tasks = [GOLDEN_RATIO_002]"
    by (simp add: tasks prioritize_single)
  have r1: "phase1_tasks r = []" "phase1_impact r = 0"
    by (simp_all add: p1 i1 sorted task_priorities PHI_order mean_impact_def)
  have r2: "phase2_tasks r = [task_to_dict GOLDEN_RATIO_002]" "phase2_impact r = 0.8"
    by (simp_all add: p2 i2 sorted task_priorities task_impacts PHI_order mean_impact_def)
  have r3: "phase3_tasks r = []" "phase3_impact r = 0"
    by (simp_all add: p3 i3 sorted task_priorities PHI_order mean_impact_def)
  have acts: "next_actions r = actions_for (title GOLDEN_RATIO_002) (weakest_pattern st)"
    by (simp add: na sorted)
  have len: "length (next_actions r) = 5" by (simp add: acts actions_for_def)
  have ti: "title GOLDEN_RATIO_002 = ''Sacred Geometry Performance Optimization''"
    by (simp add: GOLDEN_RATIO_002_def)
  have pr: "priority GOLDEN_RATIO_002 = PHI" by (rule task_priorities)
  show ?thesis
    by (rule exI[of _ st], rule exI[of _ r])
      (intro conjI; fact run[unfolded tasks] plan pr r1 r2 r3 acts ti len)
qed

theorem all_high_scores_leave_one_task_witness:
  "all_scores_at_least 0.8 report_all_high \<and>
   (\<exists>st r.
     run_generators (optimizer_init report_all_high) = Inr (st, [GOLDEN_RATIO_002]) \<and>
     generate_optimization_plan 0 (optimizer_init report_all_high) = Inr r \<and>
     phase1_tasks r = [] \<and> phase1_impact r = 0 \<and>
     phase2_tasks r = [task_to_dict GOLDEN_RATIO_002] \<and> phase2_impact r = 0.8 \<and>
     phase3_tasks r = [] \<and> phase3_impact r = 0 \<and>
     length (next_actions r) = 5)"
proof -
  have h: "all_scores_at_least 0.8 report_all_high" by (rule all_scores_report_all_high)
  from all_high_scores_leave_one_task[OF h, of 0] h show ?thesis by blast
qed


end
